theory Spec2Isabelle
  imports Complex_Main "HOL-Library.AList"
begin

section \<open>Numbers as the program has them\<close>

text \<open>
  The program computes with IEEE doubles, through numpy for arrays and numpy scalars and
  through Python's own \<open>float\<close> for plain scalars. The embedding idealises a finite
  double as a real number (no rounding, no overflow) and keeps what the two arithmetics do
  outside the reals: numpy returns \<open>inf\<close> or \<open>nan\<close> (with a RuntimeWarning) for a
  division by zero or the logarithm of a non-positive number, Python's \<open>float\<close> raises
  ZeroDivisionError. \<open>NonFin\<close> stands for any of \<open>inf\<close>, \<open>-inf\<close>, \<open>nan\<close>; it is
  absorbing, so a \<open>NonFin\<close> result says that numpy left the finite numbers somewhere on
  the way, and a \<open>Fin\<close> result is the number numpy computes up to rounding.
\<close>

datatype npfloat = Fin real | NonFin

datatype error =
    RuntimeError
  | TypeError
  | Exception
  | ZeroDivisionError
  | ValueError
  | KeyError
  | IndexError
  | UnboundLocalError

fun fadd :: "npfloat \<Rightarrow> npfloat \<Rightarrow> npfloat" where
  "fadd (Fin a) (Fin b) = Fin (a + b)"
| "fadd _ _ = NonFin"

fun fsub :: "npfloat \<Rightarrow> npfloat \<Rightarrow> npfloat" where
  "fsub (Fin a) (Fin b) = Fin (a - b)"
| "fsub _ _ = NonFin"

fun fmul :: "npfloat \<Rightarrow> npfloat \<Rightarrow> npfloat" where
  "fmul (Fin a) (Fin b) = Fin (a * b)"
| "fmul _ _ = NonFin"

fun fdiv :: "npfloat \<Rightarrow> npfloat \<Rightarrow> npfloat" where
  "fdiv (Fin a) (Fin b) = (if b = 0 then NonFin else Fin (a / b))"
| "fdiv _ _ = NonFin"

fun fexp :: "npfloat \<Rightarrow> npfloat" where
  "fexp (Fin a) = Fin (exp a)"
| "fexp NonFin = NonFin"

fun flog :: "npfloat \<Rightarrow> npfloat" where
  "flog (Fin a) = (if 0 < a then Fin (ln a) else NonFin)"
| "flog NonFin = NonFin"

fun fsquare :: "npfloat \<Rightarrow> npfloat" where
  "fsquare (Fin a) = Fin (a * a)"
| "fsquare NonFin = NonFin"

text \<open>
  A scalar is a Python \<open>float\<close> or a numpy \<open>float64\<close>. An operation with a numpy operand
  is numpy's; only \<open>float / float\<close> raises on a zero divisor.
\<close>

datatype pynum = PyFloat real | NpFloat npfloat

fun to_np :: "pynum \<Rightarrow> npfloat" where
  "to_np (PyFloat a) = Fin a"
| "to_np (NpFloat a) = a"

fun is_python :: "pynum \<Rightarrow> bool" where
  "is_python (PyFloat a) = True"
| "is_python (NpFloat a) = False"

fun py_add :: "pynum \<Rightarrow> pynum \<Rightarrow> pynum" where
  "py_add (PyFloat a) (PyFloat b) = PyFloat (a + b)"
| "py_add x y = NpFloat (fadd (to_np x) (to_np y))"

fun py_mul :: "pynum \<Rightarrow> pynum \<Rightarrow> pynum" where
  "py_mul (PyFloat a) (PyFloat b) = PyFloat (a * b)"
| "py_mul x y = NpFloat (fmul (to_np x) (to_np y))"

fun py_truediv :: "pynum \<Rightarrow> pynum \<Rightarrow> error + pynum" where
  "py_truediv (PyFloat a) (PyFloat b) =
     (if b = 0 then Inl ZeroDivisionError else Inr (PyFloat (a / b)))"
| "py_truediv x y = Inr (NpFloat (fdiv (to_np x) (to_np y)))"

section \<open>The curve\<close>

text \<open>
  The level density is an array of rows \<open>[Ex, nld]\<close> or \<open>[Ex, nld, uncertainty]\<close>;
  \<open>nld.shape[1] == 3\<close> tells the two apart. The energies are the finite numbers the
  caller gave; a value or an uncertainty can be the result of an earlier computation.
\<close>

type_synonym row2 = "real \<times> npfloat"
type_synonym row3 = "real \<times> npfloat \<times> npfloat"

datatype ndarray = Cols2 "row2 list" | Cols3 "row3 list"

fun col0 :: "ndarray \<Rightarrow> real list" where
  "col0 (Cols2 rows) = map fst rows"
| "col0 (Cols3 rows) = map fst rows"

fun col1 :: "ndarray \<Rightarrow> npfloat list" where
  "col1 (Cols2 rows) = map snd rows"
| "col1 (Cols3 rows) = map (\<lambda>r. fst (snd r)) rows"

section \<open>The transformation\<close>

text \<open>
  \<open>normalize(nld, A, alpha)\<close>: \<open>nld_norm = nld_val * A * exp(alpha * Ex)\<close>, and with a
  third column \<open>rel_unc = nld[:, 2] / nld[:, 1]\<close> and the new uncertainty
  \<open>nld_norm * rel_unc\<close>. numpy computes each row on its own. (The name \<open>normalize\<close>
  is taken by a constant of the library, hence \<open>normalize_nld\<close>.)
\<close>

definition normalize_value :: "real \<Rightarrow> real \<Rightarrow> real \<Rightarrow> npfloat \<Rightarrow> npfloat" where
  "normalize_value A alpha E nld_val = fmul (fmul nld_val (Fin A)) (fexp (Fin (alpha * E)))"

fun normalize_nld :: "ndarray \<Rightarrow> real \<Rightarrow> real \<Rightarrow> ndarray" where
  "normalize_nld (Cols2 rows) A alpha =
     Cols2 (map (\<lambda>(E, nld_val). (E, normalize_value A alpha E nld_val)) rows)"
| "normalize_nld (Cols3 rows) A alpha =
     Cols3 (map (\<lambda>(E, nld_val, unc).
        let rel_unc = fdiv unc nld_val;
            nld_norm = normalize_value A alpha E nld_val
        in (E, nld_norm, fmul nld_norm rel_unc)) rows)"

fun is_nonzero :: "npfloat \<Rightarrow> bool" where
  "is_nonzero (Fin a) = (a \<noteq> 0)"
| "is_nonzero NonFin = False"

fun nonzero_values :: "ndarray \<Rightarrow> bool" where
  "nonzero_values (Cols2 rows) = True"
| "nonzero_values (Cols3 rows) = list_all (\<lambda>(E, nld_val, unc). is_nonzero nld_val) rows"

section \<open>The constant-temperature model\<close>

text \<open>
  \<open>CT(Earr, T, Eshift) = exp((Earr - Eshift) / T) / T\<close>, on an array of energies (the
  engine calls it on a column of the curve and on a linspace) and, by numpy's
  broadcasting, on a single energy.
\<close>

definition CT_at :: "real \<Rightarrow> real \<Rightarrow> npfloat \<Rightarrow> npfloat" where
  "CT_at E T Eshift = fdiv (fexp (fdiv (fsub (Fin E) Eshift) (Fin T))) (Fin T)"

definition CT :: "real list \<Rightarrow> real \<Rightarrow> npfloat \<Rightarrow> npfloat list" where
  "CT Earr T Eshift = map (\<lambda>E. CT_at E T Eshift) Earr"

text \<open>\<open>EshiftFromT(T, nld_Sn) = nld_Sn[0] - T * log(nld_Sn[1] * T)\<close>, with numpy's log.\<close>

definition EshiftFromT :: "real \<Rightarrow> real \<times> pynum \<Rightarrow> npfloat" where
  "EshiftFromT T nld_Sn =
     fsub (Fin (fst nld_Sn)) (fmul (Fin T) (flog (fmul (to_np (snd nld_Sn)) (Fin T))))"

section \<open>Level density at the separation energy\<close>

text \<open>
  \<open>nldSn_from_D0(D0, Sn, J_target, spincutModel, spincutPars)\<close>. The spin distribution
  (class SpinFunctions) is not part of this file of the program: it is the parameter
  \<open>distibution\<close>, called as \<open>g(J)\<close> at \<open>Ex = Sn\<close>. The first component of the result
  lists the spins \<open>g\<close> was called at, in the order of the calls.
\<close>

type_synonym spin_fn = "real \<Rightarrow> real \<Rightarrow> string option \<Rightarrow> (string \<times> real) list \<Rightarrow> pynum"

definition summe_of :: "spin_fn \<Rightarrow> real \<Rightarrow> real \<Rightarrow> string option \<Rightarrow> (string \<times> real) list
    \<Rightarrow> real list \<times> pynum" where
  "summe_of distibution Sn J_target spincutModel spincutPars =
     (let g = (\<lambda>J. distibution Sn J spincutModel spincutPars) in
      if J_target = 0 then ([J_target + 1 / 2], g (J_target + 1 / 2))
      else ([J_target - 1 / 2, J_target + 1 / 2],
            py_mul (PyFloat (1 / 2)) (py_add (g (J_target - 1 / 2)) (g (J_target + 1 / 2)))))"

definition nldSn_from_D0 :: "spin_fn \<Rightarrow> pynum \<Rightarrow> real \<Rightarrow> real \<Rightarrow> string option
    \<Rightarrow> (string \<times> real) list \<Rightarrow> real list \<times> (error + real \<times> pynum)" where
  "nldSn_from_D0 distibution D0 Sn J_target spincutModel spincutPars =
     (let (calls, summe) = summe_of distibution Sn J_target spincutModel spincutPars in
      (calls,
       case py_truediv (PyFloat 1) (py_mul (py_mul summe D0) (PyFloat (1 / 1000000))) of
         Inl e \<Rightarrow> Inl e
       | Inr nld \<Rightarrow> Inr (Sn, nld)))"

section \<open>The cost function\<close>

text \<open>
  \<open>pspin\<close> is the dictionary passed on as \<open>nldSn_from_D0(D0, **pspin)\<close>: the keys
  \<open>Sn\<close> and \<open>J_target\<close>, and \<open>spincutModel\<close> and \<open>spincutPars\<close> (defaults
  \<open>None\<close> and \<open>{}\<close>).
\<close>

record pspin =
  pspin_Sn :: real
  pspin_J_target :: real
  pspin_spincutModel :: "string option"
  pspin_spincutPars :: "(string \<times> real) list"

fun col2 :: "ndarray \<Rightarrow> npfloat list" where
  "col2 (Cols2 rows) = []"
| "col2 (Cols3 rows) = map (\<lambda>r. snd (snd r)) rows"

text \<open>
  numpy's arithmetic on two one-dimensional arrays: element by element when the lengths
  agree, an array of one element is broadcast, any other pair of lengths is a ValueError.
  The in-place \<open>chi2 /= w\<close> keeps the shape of \<open>chi2\<close>, so only \<open>w\<close> is broadcast.
\<close>

definition np_binop :: "(npfloat \<Rightarrow> npfloat \<Rightarrow> npfloat) \<Rightarrow> npfloat list \<Rightarrow> npfloat list
    \<Rightarrow> error + npfloat list" where
  "np_binop f xs ys =
     (if length xs = length ys then Inr (map2 f xs ys)
      else if length ys = 1 then Inr (map (\<lambda>x. f x (hd ys)) xs)
      else if length xs = 1 then Inr (map (\<lambda>y. f (hd xs) y) ys)
      else Inl ValueError)"

definition np_idiv :: "npfloat list \<Rightarrow> npfloat list \<Rightarrow> error + npfloat list" where
  "np_idiv chi2 w =
     (if length w = length chi2 then Inr (map2 fdiv chi2 w)
      else if length w = 1 then Inr (map (\<lambda>c. fdiv c (hd w)) chi2)
      else Inl ValueError)"

definition np_sum :: "npfloat list \<Rightarrow> npfloat" where
  "np_sum xs = foldr fadd xs (Fin 0)"

text \<open>
  The four lines the cost function runs on each window: \<open>chi2 = (data[:, 1] - expected)**2.\<close>,
  divided by \<open>data[:, 2]**2\<close> when \<open>data.shape[1] == 3\<close>, and summed.
\<close>

definition chi2_sum :: "ndarray \<Rightarrow> npfloat list \<Rightarrow> error + npfloat" where
  "chi2_sum data expected =
     (case np_binop fsub (col1 data) expected of
        Inl e \<Rightarrow> Inl e
      | Inr diff \<Rightarrow>
          (let chi2 = map fsquare diff in
           case data of
             Cols2 rows \<Rightarrow> Inr (np_sum chi2)
           | Cols3 rows \<Rightarrow>
               (case np_idiv chi2 (map fsquare (col2 data)) of
                  Inl e \<Rightarrow> Inl e
                | Inr weighted \<Rightarrow> Inr (np_sum weighted))))"

definition chi2_low :: "real \<Rightarrow> real \<Rightarrow> ndarray \<Rightarrow> npfloat list \<Rightarrow> error + npfloat" where
  "chi2_low A alpha data_low levels_smoothed =
     chi2_sum (normalize_nld data_low A alpha) levels_smoothed"

type_synonym nld_model = "real list \<Rightarrow> real \<Rightarrow> npfloat \<Rightarrow> npfloat list"

definition chi2_high :: "spin_fn \<Rightarrow> real \<Rightarrow> real \<Rightarrow> real \<Rightarrow> pynum \<Rightarrow> nld_model \<Rightarrow> ndarray
    \<Rightarrow> pspin \<Rightarrow> error + npfloat \<times> (real \<times> pynum) \<times> npfloat" where
  "chi2_high distibution A alpha T D0 nldModel data_high ps =
     (let data = normalize_nld data_high A alpha in
      case snd (nldSn_from_D0 distibution D0 (pspin_Sn ps) (pspin_J_target ps)
                  (pspin_spincutModel ps) (pspin_spincutPars ps)) of
        Inl e \<Rightarrow> Inl e
      | Inr nld_Sn \<Rightarrow>
          (let Eshift = EshiftFromT T nld_Sn in
           case chi2_sum data (nldModel (col0 data) T Eshift) of
             Inl e \<Rightarrow> Inl e
           | Inr c \<Rightarrow> Inr (c, nld_Sn, Eshift)))"

text \<open>
  \<open>chi2_disc_ext(x, nldModel, data_low, data_high, levels_smoothed, pspin, returnPars)\<close>.
  \<open>x\<close> is a one-dimensional array: \<open>A, alpha = x[:2]\<close> needs two elements (ValueError),
  \<open>x[2]\<close> and \<open>x[3]\<close> the next two (IndexError), and \<open>D0 = x[3]\<close> is a numpy float.
  \<open>chi2_disc_ext_pars\<close> is the call with \<open>returnPars=True\<close>.
\<close>

definition chi2_disc_ext_pars :: "spin_fn \<Rightarrow> real list \<Rightarrow> nld_model \<Rightarrow> ndarray \<Rightarrow> ndarray
    \<Rightarrow> npfloat list \<Rightarrow> pspin \<Rightarrow> error + npfloat \<times> (real \<times> pynum) \<times> npfloat" where
  "chi2_disc_ext_pars distibution x nldModel data_low data_high levels_smoothed ps =
     (if length x < 2 then Inl ValueError
      else if length x < 4 then Inl IndexError
      else
        (let A = x ! 0; alpha = x ! 1; T = x ! 2; D0 = NpFloat (Fin (x ! 3)) in
         case chi2_low A alpha data_low levels_smoothed of
           Inl e \<Rightarrow> Inl e
         | Inr low \<Rightarrow>
             (case chi2_high distibution A alpha T D0 nldModel data_high ps of
                Inl e \<Rightarrow> Inl e
              | Inr (high, nld_Sn, Eshift) \<Rightarrow> Inr (fadd low high, nld_Sn, Eshift))))"

definition chi2_disc_ext :: "spin_fn \<Rightarrow> real list \<Rightarrow> nld_model \<Rightarrow> ndarray \<Rightarrow> ndarray
    \<Rightarrow> npfloat list \<Rightarrow> pspin \<Rightarrow> error + npfloat" where
  "chi2_disc_ext distibution x nldModel data_low data_high levels_smoothed ps =
     (case chi2_disc_ext_pars distibution x nldModel data_low data_high levels_smoothed ps of
        Inl e \<Rightarrow> Inl e
      | Inr (chi2, pars) \<Rightarrow> Inr chi2)"

text \<open>Predicates of the statements: an array of numbers, an array of nonzero numbers.\<close>

fun is_fin :: "npfloat \<Rightarrow> bool" where
  "is_fin (Fin a) = True"
| "is_fin NonFin = False"


section \<open>The two-point normalisation\<close>

text \<open>
  Modelled from the spec: \<open>lib.log_interp1d\<close> (module \<open>ompy.library\<close>, not among the
  sources). The spec calls it a log-linear interpolation of the input curve that fails
  loudly, with a bounds error, for a point outside the curve's energy range: the logarithms
  of the values are interpolated linearly between neighbouring energies, and the result is
  the exponential. A point that is an energy of the curve belongs to the segment ending
  there (the first energy to the first segment).
\<close>

fun interp_segments :: "(real \<times> npfloat) list \<Rightarrow> real \<Rightarrow> npfloat" where
  "interp_segments ((x0, y0) # (x1, y1) # rest) x =
     (if x \<le> x1
      then fadd y0 (fmul (fdiv (fsub y1 y0) (Fin (x1 - x0))) (Fin (x - x0)))
      else interp_segments ((x1, y1) # rest) x)"
| "interp_segments [(x0, y0)] x = y0"
| "interp_segments [] x = NonFin"

definition log_interp1d :: "real list \<Rightarrow> npfloat list \<Rightarrow> real \<Rightarrow> error + npfloat" where
  "log_interp1d xs ys x =
     (if length xs \<noteq> length ys \<or> xs = [] then Inl ValueError
      else if x < hd xs \<or> last xs < x then Inl ValueError
      else Inr (fexp (interp_segments (zip xs (map flog ys)) x)))"

text \<open>
  \<open>pnorm\<close> is the dictionary of the normalisation parameters: the anchors \<open>nldE1\<close> and
  \<open>nldE2\<close> of the two-point method, the window bounds and the optimiser's box of
  \<open>find_norm\<close>. A key that is missing is \<open>None\<close>, and reading it is a KeyError.
\<close>

record pnorm =
  pnorm_nldE1 :: "(real \<times> real) option"
  pnorm_nldE2 :: "(real \<times> real) option"
  pnorm_E1_low :: "real option"
  pnorm_E2_low :: "real option"
  pnorm_E1_high :: "real option"
  pnorm_E2_high :: "real option"
  pnorm_bounds_diff_evo :: "(real \<times> real) list option"

fun fneg :: "npfloat \<Rightarrow> npfloat" where
  "fneg (Fin a) = Fin (- a)"
| "fneg NonFin = NonFin"

text \<open>
  \<open>norm_2points\<close>: \<open>alpha = log((nldE2 * fnld(E1)) / (nldE1 * fnld(E2))) / (E2 - E1)\<close>,
  \<open>A = nldE2 / fnld(E2) * exp(- alpha * E2)\<close> and
  \<open>nld_norm = nld * A * exp(alpha * Ex)\<close>, all in numpy's arithmetic; the result is
  \<open>(nld_norm, A, alpha)\<close>.
\<close>

definition norm_2points :: "ndarray \<Rightarrow> pnorm \<Rightarrow> error + npfloat list \<times> npfloat \<times> npfloat" where
  "norm_2points nld pn =
     (case pnorm_nldE1 pn of
        None \<Rightarrow> Inl KeyError
      | Some (E1, nldE1) \<Rightarrow>
     (case pnorm_nldE2 pn of
        None \<Rightarrow> Inl KeyError
      | Some (E2, nldE2) \<Rightarrow>
     (case log_interp1d (col0 nld) (col1 nld) E1 of
        Inl e \<Rightarrow> Inl e
      | Inr f1 \<Rightarrow>
     (case log_interp1d (col0 nld) (col1 nld) E2 of
        Inl e \<Rightarrow> Inl e
      | Inr f2 \<Rightarrow>
         (let alpha = fdiv (flog (fdiv (fmul (Fin nldE2) f1) (fmul (Fin nldE1) f2))) (Fin (E2 - E1));
              A = fmul (fdiv (Fin nldE2) f2) (fexp (fmul (fneg alpha) (Fin E2)));
              nld_norm = map2 (\<lambda>v e. fmul (fmul v A) (fexp (fmul alpha (Fin e))))
                           (col1 nld) (col0 nld)
          in Inr (nld_norm, A, alpha))))))"

fun is_positive :: "npfloat \<Rightarrow> bool" where
  "is_positive (Fin a) = (0 < a)"
| "is_positive NonFin = False"

text \<open>The linear interpolation of real values, for the proofs about \<open>interp_segments\<close>.\<close>

fun rinterp :: "(real \<times> real) list \<Rightarrow> real \<Rightarrow> real" where
  "rinterp ((x0, y0) # (x1, y1) # rest) x =
     (if x \<le> x1 then y0 + (y1 - y0) / (x1 - x0) * (x - x0)
      else rinterp ((x1, y1) # rest) x)"
| "rinterp [(x0, y0)] x = y0"
| "rinterp [] x = 0"

section \<open>Propagation of the uncertainty\<close>

text \<open>
  \<open>normalize_scanning_samples(popt, samples)\<close>. \<open>samples\<close> is a dictionary from a
  parameter's name to its sampled values, in the order of insertion. The randomness is an
  input: \<open>rng_shuffle N\<close> is what \<open>np.random.shuffle\<close> leaves of \<open>arange(N)\<close>, and
  \<open>rng_normal i j\<close> is the standard normal draw of iteration \<open>i\<close> for bin \<open>j\<close>, so that
  \<open>stats.norm.rvs(loc, scale)\<close> is \<open>loc + scale * draw\<close>; scipy refuses a scale that is
  negative or \<open>nan\<close> with a ValueError.
\<close>

record rng =
  rng_shuffle :: "nat \<Rightarrow> nat list"
  rng_normal :: "nat \<Rightarrow> nat \<Rightarrow> real"

fun valid_scale :: "npfloat \<Rightarrow> bool" where
  "valid_scale (Fin a) = (0 \<le> a)"
| "valid_scale NonFin = False"

definition norm_rvs :: "npfloat list \<Rightarrow> npfloat list \<Rightarrow> (nat \<Rightarrow> real) \<Rightarrow> error + npfloat list" where
  "norm_rvs loc scale z =
     (if list_all valid_scale scale
      then Inr (map (\<lambda>(j, l, s). fadd l (fmul s (Fin (z j)))) (zip [0..<length loc] (zip loc scale)))
      else Inl ValueError)"

text \<open>One pass of the loop: the row \<open>nld_samples[i]\<close>.\<close>

definition sample_curve :: "rng \<Rightarrow> ndarray \<Rightarrow> (string \<times> real list) list \<Rightarrow> real list
    \<Rightarrow> nat list \<Rightarrow> nat \<Rightarrow> error + npfloat list" where
  "sample_curve r nld samples As randlist i =
     (if length randlist \<le> i then Inl IndexError
      else
        (let i_multi = randlist ! i in
         case norm_rvs (col1 nld) (col2 nld) (rng_normal r i) of
           Inl e \<Rightarrow> Inl e
         | Inr nld_tmp \<Rightarrow>
             if length As \<le> i_multi then Inl IndexError
             else
               (case map_of samples ''alpha'' of
                  None \<Rightarrow> Inl KeyError
                | Some alphas \<Rightarrow>
                    if length alphas \<le> i_multi then Inl IndexError
                    else Inr (col1 (normalize_nld (Cols2 (zip (col0 nld) nld_tmp))
                                     (As ! i_multi) (alphas ! i_multi))))))"

fun loop_samples :: "(nat \<Rightarrow> error + npfloat list) \<Rightarrow> nat list \<Rightarrow> error + npfloat list list" where
  "loop_samples body [] = Inr []"
| "loop_samples body (i # rest) =
     (case body i of
        Inl e \<Rightarrow> Inl e
      | Inr row \<Rightarrow>
          (case loop_samples body rest of
             Inl e \<Rightarrow> Inl e
           | Inr rows \<Rightarrow> Inr (row # rows)))"

fun the_fin :: "npfloat \<Rightarrow> real" where
  "the_fin (Fin a) = a"
| "the_fin NonFin = 0"

text \<open>
  \<open>np.median\<close> and the population standard deviation \<open>ndarray.std\<close> of one bin; both
  are \<open>nan\<close> for no sample at all and for a sample that is not a number.
\<close>

definition np_median :: "npfloat list \<Rightarrow> npfloat" where
  "np_median xs =
     (if xs = [] \<or> \<not> list_all is_fin xs then NonFin
      else
        (let s = sort (map the_fin xs); n = length s in
         if even n then Fin ((s ! (n div 2 - 1) + s ! (n div 2)) / 2)
         else Fin (s ! (n div 2))))"

definition np_std :: "npfloat list \<Rightarrow> npfloat" where
  "np_std xs =
     (if xs = [] \<or> \<not> list_all is_fin xs then NonFin
      else
        (let r = map the_fin xs; n = real (length r); mean = sum_list r / n in
         Fin (sqrt (sum_list (map (\<lambda>x. (x - mean) * (x - mean)) r) / n))))"

definition normalize_scanning_samples :: "rng \<Rightarrow> ndarray \<Rightarrow> (string \<times> real list) list
    \<Rightarrow> real \<Rightarrow> real \<Rightarrow> error + ndarray" where
  "normalize_scanning_samples r nld samples A_norm alpha_norm =
     (case samples of
        [] \<Rightarrow> Inl UnboundLocalError
      | (key, value) # others \<Rightarrow>
          (let N_samples = length value; randlist = rng_shuffle r N_samples in
           case nld of
             Cols2 rows \<Rightarrow> Inr (normalize_nld nld A_norm alpha_norm)
           | Cols3 rows \<Rightarrow>
               (case map_of samples ''A'' of
                  None \<Rightarrow> Inl KeyError
                | Some As \<Rightarrow>
                    (let N_loop = min 100 (length As) in
                     case loop_samples (sample_curve r nld samples As randlist) [0..<N_loop] of
                       Inl e \<Rightarrow> Inl e
                     | Inr nld_samples \<Rightarrow>
                         (let bins = map (\<lambda>j. map (\<lambda>row. row ! j) nld_samples) [0..<length rows]
                          in Inr (Cols3 (map2 (\<lambda>E bin. (E, np_median bin, np_std bin))
                                           (col0 nld) bins)))))))"

text \<open>A curve of three columns whose values are numbers and whose uncertainties are all zero.\<close>

fun zero_uncertainty :: "ndarray \<Rightarrow> bool" where
  "zero_uncertainty (Cols2 rows) = False"
| "zero_uncertainty (Cols3 rows) = list_all (\<lambda>(E, v, u). is_fin v \<and> u = Fin 0) rows"

section \<open>The engine\<close>

text \<open>Sequencing of steps that can raise: the first exception ends the run.\<close>

definition and_then :: "error + 'a \<Rightarrow> ('a \<Rightarrow> error + 'b) \<Rightarrow> error + 'b" where
  "and_then m f = (case m of Inl e \<Rightarrow> Inl e | Inr a \<Rightarrow> f a)"

definition required :: "'a option \<Rightarrow> error + 'a" where
  "required v = (case v of None \<Rightarrow> Inl KeyError | Some a \<Rightarrow> Inr a)"

definition lookup :: "(string \<times> 'a) list \<Rightarrow> string \<Rightarrow> error + 'a" where
  "lookup d key = required (map_of d key)"

text \<open>
  \<open>pext\<close> is the dictionary of the extrapolation: \<open>ext_range\<close>, \<open>T\<close>, \<open>Eshift\<close>,
  \<open>nld_Sn\<close> and the \<open>Earr\<close> that \<open>extrapolate\<close> writes into it.
\<close>

record pext =
  pext_ext_range :: "(real \<times> real) option"
  pext_T :: "real option"
  pext_Eshift :: "npfloat option"
  pext_nld_Sn :: "(real \<times> pynum) option"
  pext_Earr :: "real list option"

definition linspace50 :: "real \<Rightarrow> real \<Rightarrow> real list" where
  "linspace50 start stop = map (\<lambda>i. start + real i * ((stop - start) / 49)) [0..<50]"

text \<open>
  Modelled from the spec: \<open>lib.call_model(fun, pars, pars_req)\<close> (module \<open>ompy.library\<close>,
  not among the sources). The spec gives each strategy and each model its set of required
  parameters: the function is called with the parameters of the dictionary once the
  required ones are among its keys, and the call is refused with a TypeError otherwise.
\<close>

definition call_model :: "bool \<Rightarrow> error + 'a \<Rightarrow> error + 'a" where
  "call_model required_present call = (if required_present then call else Inl TypeError)"

text \<open>
  \<open>extrapolate(model, pars)\<close>. The energies are read first (\<open>pars["ext_range"]\<close>), then
  the model is dispatched: \<open>"CT"\<close> or a TypeError. The test
  \<open>("nld_Sn" in pars) and ("Eshift" in pars == False)\<close> is a chained comparison,
  \<open>"Eshift" in pars and pars == False\<close>, which no dictionary satisfies, so \<open>Eshift\<close> is
  never derived here. The result is the extrapolation and the dictionary, which now holds
  \<open>Earr\<close>.
\<close>

definition extrapolate :: "string \<Rightarrow> pext \<Rightarrow> error + ndarray \<times> pext" where
  "extrapolate model pars =
     and_then (required (pext_ext_range pars)) (\<lambda>(lo, hi).
       let Earr = linspace50 lo hi in
       if model = ''CT'' then
         (let pars' = pars\<lparr>pext_Earr := Some Earr\<rparr> in
          and_then
            (call_model (pext_T pars' \<noteq> None \<and> pext_Eshift pars' \<noteq> None)
               (case (pext_T pars', pext_Eshift pars') of
                  (Some T, Some Eshift) \<Rightarrow> Inr (CT Earr T Eshift)
                | _ \<Rightarrow> Inl TypeError))
            (\<lambda>values. Inr (Cols2 (zip Earr values), pars')))
       else Inl TypeError)"

text \<open>
  \<open>np.argmin\<close>: the first index of the least element, a ValueError for an empty array.
  A slice \<open>a[i:j]\<close> with indices inside the array keeps the positions \<open>i \<le> k < j\<close>.
\<close>

fun argmin_from :: "nat \<Rightarrow> real \<Rightarrow> nat \<Rightarrow> real list \<Rightarrow> nat" where
  "argmin_from best least i [] = best"
| "argmin_from best least i (x # xs) =
     (if x < least then argmin_from i x (Suc i) xs else argmin_from best least (Suc i) xs)"

definition np_argmin :: "real list \<Rightarrow> error + nat" where
  "np_argmin xs = (case xs of [] \<Rightarrow> Inl ValueError | x # rest \<Rightarrow> Inr (argmin_from 0 x 1 rest))"

definition nearest_index :: "real list \<Rightarrow> real \<Rightarrow> error + nat" where
  "nearest_index energies E = np_argmin (map (\<lambda>e. \<bar>e - E\<bar>) energies)"

definition py_slice :: "nat \<Rightarrow> nat \<Rightarrow> 'a list \<Rightarrow> 'a list" where
  "py_slice i j xs = drop i (take j xs)"

fun slice_rows :: "nat \<Rightarrow> nat \<Rightarrow> ndarray \<Rightarrow> ndarray" where
  "slice_rows i j (Cols2 rows) = Cols2 (py_slice i j rows)"
| "slice_rows i j (Cols3 rows) = Cols3 (py_slice i j rows)"

definition column_stack :: "real list \<Rightarrow> npfloat list \<Rightarrow> error + ndarray" where
  "column_stack xs ys = (if length xs = length ys then Inr (Cols2 (zip xs ys)) else Inl ValueError)"

text \<open>
  What the engine calls and this file of the program does not hold: the spin distribution,
  \<open>lib.get_discretes\<close> (its first result, the smoothed levels),
  \<open>scipy.optimize.differential_evolution\<close> (its \<open>res.x\<close>), \<open>run_nld_2regions\<close> and the
  random numbers. Each is a parameter, and each can raise.
\<close>

type_synonym popt = "(string \<times> real \<times> real) list"
type_synonym samples = "(string \<times> real list) list"
type_synonym chi2_args = "nld_model \<times> ndarray \<times> ndarray \<times> npfloat list \<times> pspin"

record env =
  env_distibution :: spin_fn
  env_get_discretes :: "real list \<Rightarrow> string \<Rightarrow> real \<Rightarrow> error + npfloat list"
  env_differential_evolution ::
    "(real list \<Rightarrow> error + npfloat) \<Rightarrow> (real \<times> real) list \<Rightarrow> error + real list"
  env_run_nld_2regions :: "(string \<times> real) list \<Rightarrow> chi2_args \<Rightarrow> error + popt \<times> samples"
  env_rng :: rng

text \<open>The object: the fields \<open>__init__\<close> sets, and those a method sets later (\<open>None\<close> before).\<close>

record NormNLD =
  self_nld :: ndarray
  self_method :: string
  self_pnorm :: pnorm
  self_nldModel :: string
  self_pext :: pext
  self_pspin :: pspin
  self_D0 :: real
  self_fname_discretes :: string
  self_nld_norm :: "ndarray option"
  self_discretes :: "ndarray option"
  self_A_norm :: "real option"
  self_alpha_norm :: "real option"
  self_T :: "real option"
  self_multinest_samples :: "samples option"
  self_nld_ext :: "ndarray option"
  self_chi2_args :: "chi2_args option"

definition get_discretes :: "env \<Rightarrow> NormNLD \<Rightarrow> real list \<Rightarrow> real \<Rightarrow> error + npfloat list" where
  "get_discretes ev self Emids resolution =
     env_get_discretes ev Emids (self_fname_discretes self) resolution"

text \<open>
  The first part of \<open>find_norm\<close>: the window bounds are read from \<open>pnorm\<close>, the two
  windows are cut out of the curve at the indices nearest to their bounds, and the smoothed
  levels are cut with the indices of the low window. The result is
  \<open>(data_low, levels_smoothed, discretes, data_high)\<close>.
\<close>

definition find_norm_windows :: "env \<Rightarrow> NormNLD
    \<Rightarrow> error + ndarray \<times> npfloat list \<times> ndarray \<times> ndarray" where
  "find_norm_windows ev self =
     (let nld = self_nld self; pn = self_pnorm self in
      and_then (required (pnorm_E1_low pn)) (\<lambda>E1_low.
      and_then (required (pnorm_E2_low pn)) (\<lambda>E2_low.
      and_then (required (pnorm_E1_high pn)) (\<lambda>E1_high.
      and_then (required (pnorm_E2_high pn)) (\<lambda>E2_high.
      and_then (nearest_index (col0 nld) E1_low) (\<lambda>idE1.
      and_then (nearest_index (col0 nld) E2_low) (\<lambda>idE2.
        let data_low = slice_rows idE1 idE2 nld in
      and_then (get_discretes ev self (col0 nld) (1 / 10)) (\<lambda>levels.
        let levels_smoothed = py_slice idE1 idE2 levels in
      and_then (column_stack (py_slice idE1 idE2 (col0 nld)) levels_smoothed) (\<lambda>discretes.
      and_then (nearest_index (col0 nld) E1_high) (\<lambda>idE1'.
      and_then (nearest_index (col0 nld) E2_high) (\<lambda>idE2'.
        let data_high = slice_rows idE1' idE2' nld in
        Inr (data_low, levels_smoothed, discretes, data_high))))))))))))"

text \<open>
  \<open>find_norm\<close>. After the windows the model is dispatched: \<open>"CT"\<close> binds the local
  \<open>nldModel\<close>; any other name only prints "Other models not yet supported in this fit",
  and the next statement, which reads \<open>nldModel\<close>, raises UnboundLocalError. The values of
  \<open>popt\<close> come from the sampler's arrays and are numpy floats.
\<close>

definition find_norm :: "env \<Rightarrow> NormNLD \<Rightarrow> error + (popt \<times> samples) \<times> NormNLD" where
  "find_norm ev self =
     and_then (find_norm_windows ev self) (\<lambda>(data_low, levels_smoothed, discretes, data_high).
       let self1 = self\<lparr>self_discretes := Some discretes\<rparr>; ps = self_pspin self in
       if self_nldModel self \<noteq> ''CT'' then Inl UnboundLocalError
       else
         (let nldModel = CT;
              chi2_args = (nldModel, data_low, data_high, levels_smoothed, ps)
          in
          and_then (required (pnorm_bounds_diff_evo (self_pnorm self))) (\<lambda>bounds.
          and_then (env_differential_evolution ev
                      (\<lambda>x. chi2_disc_ext (env_distibution ev) x nldModel data_low data_high
                             levels_smoothed ps) bounds) (\<lambda>res_x.
            let p0 = (zip [''A'', ''alpha'', ''T'', ''D0''] res_x);
                p0' = AList.update ''D0'' (self_D0 self) p0
            in
          and_then (env_run_nld_2regions ev p0' chi2_args) (\<lambda>(popt, samples).
          and_then (lookup popt ''T'') (\<lambda>T.
          and_then (lookup popt ''D0'') (\<lambda>D0.
          and_then (snd (nldSn_from_D0 (env_distibution ev) (NpFloat (Fin (fst D0)))
                      (pspin_Sn ps) (pspin_J_target ps) (pspin_spincutModel ps)
                      (pspin_spincutPars ps))) (\<lambda>nld_Sn.
          and_then (lookup popt ''T'') (\<lambda>T'.
            let pext1 = (self_pext self1)\<lparr>pext_T := Some (fst T), pext_nld_Sn := Some nld_Sn,
                          pext_Eshift := Some (EshiftFromT (fst T') nld_Sn)\<rparr>
            in
          and_then (extrapolate (self_nldModel self) pext1) (\<lambda>(nld_ext, pext2).
            Inr ((popt, samples),
                 self1\<lparr>self_pext := pext2, self_nld_ext := Some nld_ext,
                       self_chi2_args := Some chi2_args\<rparr>)))))))))))"

text \<open>
  \<open>__init__\<close>. The fields are stored, then the curve's energies are tested against 1000
  (a warning and a RuntimeError), then the method is dispatched. The source compares the
  method with \<open>is\<close>; the model takes the strings the interpreter shares, for which \<open>is\<close>
  is equality. The two-point branch calls \<open>norm_2points\<close> through \<open>lib.call_model\<close>
  with the required parameters \<open>nldE1\<close> and \<open>nldE2\<close>, and ends in the source's
  \<open>raise Exception("Need to work on the selection of levels here")\<close>.
\<close>

definition unit_check :: "ndarray \<Rightarrow> error + unit" where
  "unit_check nld = (if list_ex (\<lambda>e. 1000 < e) (col0 nld) then Inl RuntimeError else Inr ())"

definition run_method :: "env \<Rightarrow> NormNLD \<Rightarrow> error + NormNLD" where
  "run_method ev self =
     (if self_method self = ''2points'' then
        and_then
          (call_model (pnorm_nldE1 (self_pnorm self) \<noteq> None \<and> pnorm_nldE2 (self_pnorm self) \<noteq> None)
             (norm_2points (self_nld self) (self_pnorm self)))
          (\<lambda>(nld_norm, A_norm, alpha_norm).
        and_then (extrapolate (self_nldModel self) (self_pext self)) (\<lambda>(nld_ext, pext').
        and_then (get_discretes ev self (col0 (self_nld self)) (1 / 10)) (\<lambda>levels_smoothed.
          Inl Exception)))
      else if self_method self = ''find_norm'' then
        and_then (find_norm ev self) (\<lambda>((popt, samples), self1).
        and_then (lookup popt ''A'') (\<lambda>A.
        and_then (lookup popt ''alpha'') (\<lambda>alpha.
        and_then (lookup popt ''T'') (\<lambda>T.
          let self2 = self1\<lparr>self_A_norm := Some (fst A), self_alpha_norm := Some (fst alpha),
                            self_T := Some (fst T), self_multinest_samples := Some samples\<rparr>
          in
        and_then (normalize_scanning_samples (env_rng ev) (self_nld self2) samples (fst A) (fst alpha))
          (\<lambda>nld_norm. Inr (self2\<lparr>self_nld_norm := Some nld_norm\<rparr>))))))
      else Inl TypeError)"

definition NormNLD_init :: "env \<Rightarrow> ndarray \<Rightarrow> string \<Rightarrow> pnorm \<Rightarrow> string \<Rightarrow> pext \<Rightarrow> pspin \<Rightarrow> real
    \<Rightarrow> string \<Rightarrow> error + NormNLD" where
  "NormNLD_init ev nld method pn nldModel pe ps D0 fname_discretes =
     (let self = \<lparr>self_nld = nld, self_method = method, self_pnorm = pn, self_nldModel = nldModel,
                   self_pext = pe, self_pspin = ps, self_D0 = D0,
                   self_fname_discretes = fname_discretes, self_nld_norm = None,
                   self_discretes = None, self_A_norm = None, self_alpha_norm = None,
                   self_T = None, self_multinest_samples = None, self_nld_ext = None,
                   self_chi2_args = None\<rparr>
      in and_then (unit_check nld) (\<lambda>u. run_method ev self))"

text \<open>
  For the statements about the windows: the rows of a curve at given positions, and an index
  of the energy grid at which the distance to \<open>E\<close> is least.
\<close>

fun select_rows :: "nat list \<Rightarrow> ndarray \<Rightarrow> ndarray" where
  "select_rows ks (Cols2 rows) = Cols2 (map (\<lambda>k. rows ! k) ks)"
| "select_rows ks (Cols3 rows) = Cols3 (map (\<lambda>k. rows ! k) ks)"

definition is_nearest :: "real list \<Rightarrow> real \<Rightarrow> nat \<Rightarrow> bool" where
  "is_nearest energies E r =
     (r < length energies \<and> list_all (\<lambda>e. \<bar>energies ! r - E\<bar> \<le> \<bar>e - E\<bar>) energies)"

text \<open>
  One concrete engine, for the closed statements below: a curve of four points, a spin
  distribution that is constantly \<open>1\<close>, smoothed levels that repeat the energies, an
  optimiser and a sampler that return fixed values, a shuffle that leaves the order.
\<close>

definition demo_nld :: ndarray where
  "demo_nld = Cols2 [(0, Fin 1), (1, Fin 2), (2, Fin 3), (3, Fin 4)]"

definition demo_pnorm :: pnorm where
  "demo_pnorm = \<lparr>pnorm_nldE1 = None, pnorm_nldE2 = None, pnorm_E1_low = Some (1 / 10),
     pnorm_E2_low = Some (19 / 10), pnorm_E1_high = Some (11 / 5), pnorm_E2_high = Some 3,
     pnorm_bounds_diff_evo = Some [(1, 2), (0, 1), (1, 2), (1, 2)]\<rparr>"

definition demo_pext :: pext where
  "demo_pext = \<lparr>pext_ext_range = Some (3, 8), pext_T = None, pext_Eshift = None,
     pext_nld_Sn = None, pext_Earr = None\<rparr>"

definition demo_pspin :: pspin where
  "demo_pspin = \<lparr>pspin_Sn = 8, pspin_J_target = 0, pspin_spincutModel = None,
     pspin_spincutPars = []\<rparr>"

definition demo_env :: env where
  "demo_env = \<lparr>env_distibution = (\<lambda>Sn J spincutModel spincutPars. PyFloat 1),
     env_get_discretes = (\<lambda>Emids fname resolution. Inr (map Fin Emids)),
     env_differential_evolution = (\<lambda>cost bounds. Inr [1, 0, 1, 1]),
     env_run_nld_2regions = (\<lambda>p0 args.
        Inr ([(''A'', (1, 0)), (''alpha'', (0, 0)), (''T'', (1, 0)), (''D0'', (1, 0))],
             [(''A'', [1]), (''alpha'', [0]), (''T'', [1]), (''D0'', [1])])),
     env_rng = \<lparr>rng_shuffle = (\<lambda>N. [0..<N]), rng_normal = (\<lambda>i j. 0)\<rparr>\<rparr>"

definition demo_self :: "string \<Rightarrow> string \<Rightarrow> NormNLD" where
  "demo_self method nldModel =
     \<lparr>self_nld = demo_nld, self_method = method, self_pnorm = demo_pnorm,
      self_nldModel = nldModel, self_pext = demo_pext, self_pspin = demo_pspin, self_D0 = 1,
      self_fname_discretes = ''discrete_levels.txt'', self_nld_norm = None,
      self_discretes = None, self_A_norm = None, self_alpha_norm = None, self_T = None,
      self_multinest_samples = None, self_nld_ext = None, self_chi2_args = None\<rparr>"

section \<open>Round trip of the transformation\<close>

lemma normalize_value_back:
  "A \<noteq> 0 \<Longrightarrow> normalize_value (1 / A) (- alpha) E (normalize_value A alpha E v) = v"
  by (cases v) (simp_all add: normalize_value_def exp_minus)

lemma normalize_row3_back:
  assumes "A \<noteq> 0" "is_nonzero v"
  shows "fmul (normalize_value (1 / A) (- alpha) E (normalize_value A alpha E v))
           (fdiv (fmul (normalize_value A alpha E v) (fdiv u v)) (normalize_value A alpha E v)) = u"
  using assms by (cases v; cases u) (simp_all add: normalize_value_def exp_minus)

text \<open>
  C4. For a curve of two columns, or of three columns whose values are nonzero numbers, and
  for \<open>A \<noteq> 0\<close>, normalising with \<open>(A, alpha)\<close> and then with \<open>(1/A, -alpha)\<close> gives
  the curve back: energies, values and uncertainties.
\<close>

theorem normalize_roundtrip:
  assumes "A \<noteq> 0" and "nonzero_values nld"
  shows "normalize_nld (normalize_nld nld A alpha) (1 / A) (- alpha) = nld"
proof (cases nld)
  case (Cols2 rows)
  have "map ((\<lambda>(E, nld_val). (E, normalize_value (1 / A) (- alpha) E nld_val)) \<circ>
             (\<lambda>(E, nld_val). (E, normalize_value A alpha E nld_val))) rows = rows"
    using assms(1) by (intro map_idI) (auto simp: normalize_value_back)
  with Cols2 show ?thesis by simp
next
  case (Cols3 rows)
  let ?fwd = "\<lambda>(E, nld_val, unc).
        let rel_unc = fdiv unc nld_val;
            nld_norm = normalize_value A alpha E nld_val
        in (E, nld_norm, fmul nld_norm rel_unc)"
  let ?bwd = "\<lambda>(E, nld_val, unc).
        let rel_unc = fdiv unc nld_val;
            nld_norm = normalize_value (1 / A) (- alpha) E nld_val
        in (E, nld_norm, fmul nld_norm rel_unc)"
  have "map (?bwd \<circ> ?fwd) rows = rows"
  proof (intro map_idI)
    fix r assume r: "r \<in> set rows"
    obtain E v u where [simp]: "r = (E, v, u)" by (cases r) auto
    from r assms(2) Cols3 have nz: "is_nonzero v" by (auto simp: list_all_iff)
    show "(?bwd \<circ> ?fwd) r = r"
      using normalize_row3_back [OF assms(1) nz, of alpha E u]
        normalize_value_back [OF assms(1), of alpha E v]
      by (simp add: Let_def)
  qed
  with Cols3 show ?thesis by simp
qed

theorem normalize_roundtrip_witness:
  "normalize_nld (normalize_nld (Cols3 [(1, Fin 2, Fin 3), (2, Fin 5, Fin 0)]) 4 0) (1 / 4) (- 0)
     = Cols3 [(1, Fin 2, Fin 3), (2, Fin 5, Fin 0)]
   \<and> normalize_nld (Cols3 [(1, Fin 2, Fin 3), (2, Fin 5, Fin 0)]) 4 0
     = Cols3 [(1, Fin 8, Fin 12), (2, Fin 20, Fin 0)]"
  using normalize_roundtrip [of 4 "Cols3 [(1, Fin 2, Fin 3), (2, Fin 5, Fin 0)]" 0]
  by (simp add: normalize_value_def)

section \<open>The anchor of the constant-temperature model\<close>

text \<open>
  C5. For a temperature \<open>T > 0\<close> and an anchor \<open>(Sn, rho)\<close> with \<open>rho * T > 0\<close>, the
  shift is \<open>Sn - T * ln (rho * T)\<close> and the constant-temperature model with that shift,
  evaluated at \<open>Sn\<close>, gives \<open>rho\<close> back (as a single energy and as an array of one).
\<close>

theorem CT_EshiftFromT:
  assumes "0 < T" and "to_np rho = Fin r" and "0 < r * T"
  shows "CT_at Sn T (EshiftFromT T (Sn, rho)) = Fin r
       \<and> CT [Sn] T (EshiftFromT T (Sn, rho)) = [Fin r]
       \<and> EshiftFromT T (Sn, rho) = Fin (Sn - T * ln (r * T))"
proof -
  have e: "EshiftFromT T (Sn, rho) = Fin (Sn - T * ln (r * T))"
    using assms by (simp add: EshiftFromT_def)
  have "(Sn - (Sn - T * ln (r * T))) / T = ln (r * T)"
    using assms(1) by simp
  then have "exp ((Sn - (Sn - T * ln (r * T))) / T) / T = r"
    using assms(1,3) by simp
  then have "CT_at Sn T (Fin (Sn - T * ln (r * T))) = Fin r"
    using assms(1) unfolding CT_at_def by simp
  with e show ?thesis by (simp add: CT_def)
qed

theorem CT_EshiftFromT_witness:
  "CT_at 8 2 (EshiftFromT 2 (8, PyFloat 3)) = Fin 3 \<and> CT [8] 2 (EshiftFromT 2 (8, PyFloat 3)) = [Fin 3]"
proof -
  have h: "0 < (2::real)" "to_np (PyFloat 3) = Fin 3" "0 < (3::real) * 2" by simp_all
  show ?thesis using CT_EshiftFromT [OF h, of 8] by blast
qed

section \<open>Level density at the separation energy: the formula\<close>

lemma fst_nldSn: "fst (nldSn_from_D0 d D0 Sn J m p) = fst (summe_of d Sn J m p)"
  by (simp add: nldSn_from_D0_def split: prod.splits)

lemma snd_nldSn: "snd (nldSn_from_D0 d D0 Sn J m p) =
   (case py_truediv (PyFloat 1) (py_mul (py_mul (snd (summe_of d Sn J m p)) D0) (PyFloat (1 / 1000000))) of
         Inl e \<Rightarrow> Inl e
       | Inr nld \<Rightarrow> Inr (Sn, nld))"
  by (simp add: nldSn_from_D0_def split: prod.splits)

lemma to_np_py_mul: "to_np (py_mul x y) = fmul (to_np x) (to_np y)"
  by (cases x; cases y) simp_all

lemma to_np_py_add: "to_np (py_add x y) = fadd (to_np x) (to_np y)"
  by (cases x; cases y) simp_all

lemma py_truediv_value:
  "to_np y = Fin b \<Longrightarrow> b \<noteq> 0 \<Longrightarrow> \<exists>q. py_truediv (PyFloat a) y = Inr q \<and> to_np q = Fin (a / b)"
  by (cases y) simp_all

text \<open>
  C1. With \<open>g J\<close> the spin distribution at \<open>Ex = Sn\<close> and spin \<open>J\<close>, \<open>nldSn_from_D0\<close>
  calls it at \<open>J_target + 1/2\<close> only when \<open>J_target = 0\<close>, and at \<open>J_target - 1/2\<close> and
  \<open>J_target + 1/2\<close> otherwise; \<open>summe\<close> is the one value or the mean of the two, and the
  result is the pair of \<open>Sn\<close> and \<open>1 / (summe * D0 * 1e-6)\<close>, wherever that quotient is
  defined.
\<close>

theorem nldSn_from_D0_formula:
  fixes distibution :: spin_fn
  assumes g: "\<And>J. to_np (distibution Sn J spincutModel spincutPars) = Fin (g J)"
    and D0: "to_np D0 = Fin d"
    and summe: "summe = (if J_target = 0 then g (J_target + 1 / 2)
                         else (g (J_target - 1 / 2) + g (J_target + 1 / 2)) / 2)"
    and nz: "summe * d \<noteq> 0"
  shows "\<exists>nld. nldSn_from_D0 distibution D0 Sn J_target spincutModel spincutPars
           = (if J_target = 0 then [J_target + 1 / 2] else [J_target - 1 / 2, J_target + 1 / 2],
              Inr (Sn, nld))
         \<and> to_np nld = Fin (1 / (summe * d * (1 / 1000000)))"
proof -
  let ?s = "snd (summe_of distibution Sn J_target spincutModel spincutPars)"
  have s: "to_np ?s = Fin summe"
    using g summe by (simp add: summe_of_def to_np_py_mul to_np_py_add)
  have den: "to_np (py_mul (py_mul ?s D0) (PyFloat (1 / 1000000))) = Fin (summe * d * (1 / 1000000))"
    using s D0 by (simp add: to_np_py_mul)
  from nz have "summe * d * (1 / 1000000) \<noteq> 0" by simp
  from py_truediv_value [OF den this, of 1]
  obtain q where q: "py_truediv (PyFloat 1) (py_mul (py_mul ?s D0) (PyFloat (1 / 1000000))) = Inr q"
    "to_np q = Fin (1 / (summe * d * (1 / 1000000)))" by blast
  have f: "fst (summe_of distibution Sn J_target spincutModel spincutPars)
        = (if J_target = 0 then [J_target + 1 / 2] else [J_target - 1 / 2, J_target + 1 / 2])"
    by (simp add: summe_of_def)
  have "nldSn_from_D0 distibution D0 Sn J_target spincutModel spincutPars
      = (if J_target = 0 then [J_target + 1 / 2] else [J_target - 1 / 2, J_target + 1 / 2], Inr (Sn, q))"
    by (simp add: prod_eq_iff fst_nldSn snd_nldSn q(1) f)
  with q(2) show ?thesis by blast
qed

theorem nldSn_from_D0_formula_witness:
  "\<exists>nld. nldSn_from_D0 (\<lambda>Sn J m p. PyFloat (2 * J + 1)) (NpFloat (Fin 10)) 8 (1 / 2) None []
            = ([0, 1], Inr (8, nld)) \<and> to_np nld = Fin 50000"
proof -
  have h: "(2::real) = (if (1 / 2 :: real) = 0 then (\<lambda>J. 2 * J + 1) (1 / 2 + 1 / 2)
                         else ((\<lambda>J. 2 * J + 1) (1 / 2 - 1 / 2) + (\<lambda>J. 2 * J + 1) (1 / 2 + 1 / 2)) / 2)"
    by simp
  show ?thesis
    using nldSn_from_D0_formula [of "\<lambda>Sn J m p. PyFloat (2 * J + 1)" 8 None "[]" "\<lambda>J. 2 * J + 1"
        "NpFloat (Fin 10)" 10 2 "1 / 2", OF _ _ h]
    by simp
qed

text \<open>
  C7, as the program has it. \<open>nldSn_from_D0\<close> does not test \<open>summe\<close>. When it is zero, the
  division is left to the operands: Python floats raise ZeroDivisionError, and as soon as
  \<open>summe\<close> or \<open>D0\<close> is a numpy float (the cost function passes \<open>D0 = x[3]\<close> of an array)
  the pair is returned with a density that is not a finite number.
\<close>

theorem nldSn_from_D0_zero_summe:
  fixes distibution :: spin_fn
  assumes "snd (summe_of distibution Sn J_target spincutModel spincutPars) = summe"
    and "to_np summe = Fin 0"
  shows "snd (nldSn_from_D0 distibution D0 Sn J_target spincutModel spincutPars)
       = (if is_python summe \<and> is_python D0 then Inl ZeroDivisionError
          else Inr (Sn, NpFloat NonFin))"
proof (cases summe)
  case (PyFloat s)
  with assms show ?thesis by (cases D0; cases "to_np D0") (simp_all add: snd_nldSn)
next
  case (NpFloat s)
  with assms show ?thesis by (cases D0; cases "to_np D0") (simp_all add: snd_nldSn)
qed

theorem nldSn_from_D0_zero_summe_witness:
  "snd (nldSn_from_D0 (\<lambda>Sn J m p. PyFloat 0) (PyFloat 1) 8 0 None []) = Inl ZeroDivisionError
   \<and> snd (nldSn_from_D0 (\<lambda>Sn J m p. NpFloat (Fin (2 * J - 1))) (PyFloat 1) 8 (1 / 2) None [])
       = Inr (8, NpFloat NonFin)"
  using nldSn_from_D0_zero_summe [of "\<lambda>Sn J m p. PyFloat 0" 8 0 None "[]" "PyFloat 0" "PyFloat 1"]
    nldSn_from_D0_zero_summe [of "\<lambda>Sn J m p. NpFloat (Fin (2 * J - 1))" 8 "1 / 2" None "[]" "NpFloat (Fin 0)" "PyFloat 1"]
  by (simp add: summe_of_def)

text \<open>
  The claim that a zero \<open>summe\<close> always ends in an error fails for \<open>D0\<close> a numpy float:
  the call returns, and its density is \<open>inf\<close>.
\<close>

theorem nldSn_from_D0_zero_summe_counterexample:
  "snd (nldSn_from_D0 (\<lambda>Sn J m p. PyFloat 0) (NpFloat (Fin 1)) 8 0 None []) = Inr (8, NpFloat NonFin)
   \<and> \<not> (\<exists>e. snd (nldSn_from_D0 (\<lambda>Sn J m p. PyFloat 0) (NpFloat (Fin 1)) 8 0 None []) = Inl e)"
  by (simp add: nldSn_from_D0_def summe_of_def)

section \<open>The cost function: sign, sum and zero\<close>















lemma nldSn_numpy_returns:
  "\<exists>nld. snd (nldSn_from_D0 d (NpFloat D0) S J m p) = Inr (S, NpFloat nld)"
  by (cases "snd (summe_of d S J m p)") (simp_all add: nldSn_from_D0_def split: prod.splits)








section \<open>The two-point normalisation meets its anchors\<close>

lemma interp_segments_fin:
  "sorted_wrt (<) (map fst ps) \<Longrightarrow>
   interp_segments (map (\<lambda>(x, l). (x, Fin l)) ps) x = (if ps = [] then NonFin else Fin (rinterp ps x))"
proof (induction ps x rule: rinterp.induct)
  case (1 x0 y0 x1 y1 rest x)
  then show ?case by auto
qed simp_all

lemma rinterp_affine:
  "sorted_wrt (<) (map fst ps) \<Longrightarrow> ps \<noteq> [] \<Longrightarrow> fst (hd ps) \<le> x \<Longrightarrow> x \<le> fst (last ps) \<Longrightarrow>
   rinterp (map (\<lambda>(e, l). (e, l + c + a * e)) ps) x = rinterp ps x + c + a * x"
proof (induction ps x rule: rinterp.induct)
  case (1 x0 y0 x1 y1 rest x)
  show ?case
  proof (cases "x \<le> x1")
    case True
    from 1(2) have "x0 < x1" by simp
    then have "x1 - x0 \<noteq> 0" by simp
    then have "(y1 + c + a * x1 - (y0 + c + a * x0)) / (x1 - x0) = (y1 - y0) / (x1 - x0) + a"
      by (simp add: field_simps)
    with True show ?thesis by (simp add: algebra_simps)
  next
    case False
    with 1 show ?thesis by simp
  qed
next
  case (2 x0 y0 x)
  then show ?case by simp
qed simp


lemma rows_of_columns:
  "length xs = length ys \<Longrightarrow> list_all is_positive ys \<Longrightarrow>
   \<exists>rows. xs = map fst rows \<and> ys = map (\<lambda>p. Fin (snd p)) rows \<and> (\<forall>p \<in> set rows. 0 < snd p)"
proof (induction xs ys rule: list_induct2)
  case Nil
  then show ?case by simp
next
  case (Cons x xs y ys)
  then obtain rows where r: "xs = map fst rows" "ys = map (\<lambda>p. Fin (snd p)) rows"
    "\<forall>p \<in> set rows. 0 < snd p" by auto
  from Cons.prems obtain a where a: "y = Fin a" "0 < a" by (cases y) auto
  show ?case
    by (rule exI [of _ "(x, a) # rows"]) (use r a in simp)
qed

lemma length_cols: "length (col0 nld) = length (col1 nld)"
  by (cases nld) simp_all

lemma log_interp1d_rows:
  assumes "sorted_wrt (<) (map fst rows)" "rows \<noteq> []" "\<forall>p \<in> set rows. 0 < snd p"
    and "fst (hd rows) \<le> x" "x \<le> fst (last rows)"
  shows "log_interp1d (map fst rows) (map (\<lambda>p. Fin (snd p)) rows) x
       = Inr (Fin (exp (rinterp (map (\<lambda>(e, r). (e, ln r)) rows) x)))"
proof -
  have z: "zip (map fst rows) (map flog (map (\<lambda>p. Fin (snd p)) rows))
         = map (\<lambda>(x, l). (x, Fin l)) (map (\<lambda>(e, r). (e, ln r)) rows)"
    using assms(3) by (induction rows) auto
  have srt: "sorted_wrt (<) (map fst (map (\<lambda>(e, r). (e, ln r)) rows))"
    using assms(1) by (simp add: comp_def case_prod_unfold)
  show ?thesis
    using assms(2,4,5) interp_segments_fin [OF srt, of x]
    unfolding log_interp1d_def z by (simp add: hd_map last_map)
qed

lemma normalised_rows:
  "map2 (\<lambda>v e. fmul (fmul v (Fin A)) (fexp (fmul (Fin alpha) (Fin e))))
        (map (\<lambda>p. Fin (snd p)) rows) (map fst rows)
   = map (\<lambda>p. Fin (snd p)) (map (\<lambda>(e, r). (e, r * A * exp (alpha * e))) rows)"
  by (induction rows) auto

lemma log_interp1d_normalised:
  assumes "sorted_wrt (<) (map fst rows)" "rows \<noteq> []" "\<forall>p \<in> set rows. 0 < snd p"
    and "fst (hd rows) \<le> x" "x \<le> fst (last rows)" and "0 < A"
  shows "log_interp1d (map fst rows)
           (map (\<lambda>p. Fin (snd p)) (map (\<lambda>(e, r). (e, r * A * exp (alpha * e))) rows)) x
       = Inr (Fin (exp (rinterp (map (\<lambda>(e, r). (e, ln r)) rows) x) * A * exp (alpha * x)))"
proof -
  let ?rows' = "map (\<lambda>(e, r). (e, r * A * exp (alpha * e))) rows"
  let ?logs = "map (\<lambda>(e, r). (e, ln r)) rows"
  have f: "map fst ?rows' = map fst rows" by (induction rows) auto
  have pos: "\<forall>p \<in> set ?rows'. 0 < snd p" using assms(3,6) by auto
  have hl: "fst (hd ?rows') = fst (hd rows)" "fst (last ?rows') = fst (last rows)"
    using assms(2) by (simp_all add: hd_map last_map case_prod_unfold)
  have logs: "map (\<lambda>(e, r). (e, ln r)) ?rows' = map (\<lambda>(e, l). (e, l + ln A + alpha * e)) ?logs"
    using assms(3,6) by (induction rows) (auto simp: ln_mult)
  have srt: "sorted_wrt (<) (map fst ?logs)"
    using assms(1) by (simp add: comp_def case_prod_unfold)
  have hl2: "fst (hd ?logs) = fst (hd rows)" "fst (last ?logs) = fst (last rows)"
    using assms(2) by (simp_all add: hd_map last_map case_prod_unfold)
  have "rinterp (map (\<lambda>(e, l). (e, l + ln A + alpha * e)) ?logs) x
      = rinterp ?logs x + ln A + alpha * x"
    using assms(2,4,5) hl2 by (intro rinterp_affine [OF srt]) simp_all
  then have "exp (rinterp (map (\<lambda>(e, r). (e, ln r)) ?rows') x)
      = exp (rinterp ?logs x) * A * exp (alpha * x)"
    using assms(6) unfolding logs by (simp add: exp_add)
  moreover have "log_interp1d (map fst ?rows') (map (\<lambda>p. Fin (snd p)) ?rows') x
       = Inr (Fin (exp (rinterp (map (\<lambda>(e, r). (e, ln r)) ?rows') x)))"
  proof (rule log_interp1d_rows [OF _ _ pos])
    show "sorted_wrt (<) (map fst ?rows')" unfolding f by (rule assms(1))
    show "?rows' \<noteq> []" using assms(2) by simp
    show "fst (hd ?rows') \<le> x" unfolding hl by (rule assms(4))
    show "x \<le> fst (last ?rows')" unfolding hl by (rule assms(5))
  qed
  ultimately show ?thesis unfolding f by simp
qed


lemma two_point_algebra:
  fixes f1 f2 v1 v2 E1 E2 :: real
  assumes "0 < f1" "0 < f2" "0 < v1" "0 < v2" "E1 \<noteq> E2"
  defines "alpha \<equiv> ln ((v2 * f1) / (v1 * f2)) / (E2 - E1)"
  defines "A \<equiv> v2 / f2 * exp (- alpha * E2)"
  shows "f1 * A * exp (alpha * E1) = v1" and "f2 * A * exp (alpha * E2) = v2" and "0 < A"
proof -
  let ?Q = "(v2 * f1) / (v1 * f2)"
  have Q: "0 < ?Q" using assms(1-4) by simp
  have "alpha * (E1 - E2) = - ln ?Q"
    using assms(5) unfolding alpha_def by (simp add: field_simps)
  then have "exp (alpha * (E1 - E2)) = inverse ?Q"
    using Q by (simp add: exp_minus)
  then have e: "exp (- alpha * E2) * exp (alpha * E1) = (v1 * f2) / (v2 * f1)"
    by (simp add: exp_add [symmetric] algebra_simps)
  have "f1 * A * exp (alpha * E1) = f1 * (v2 / f2) * (exp (- alpha * E2) * exp (alpha * E1))"
    unfolding A_def by simp
  also have "\<dots> = v1" unfolding e using assms(1-4) by simp
  finally show "f1 * A * exp (alpha * E1) = v1" .
  have "exp (- alpha * E2) * exp (alpha * E2) = 1" by (simp add: exp_add [symmetric])
  then have "f2 * A * exp (alpha * E2) = f2 * (v2 / f2)"
    unfolding A_def by (simp add: mult.assoc)
  then show "f2 * A * exp (alpha * E2) = v2" using assms(2) by simp
  show "0 < A" unfolding A_def using assms(2,4) by simp
qed

text \<open>
  C3, as the program has it. For a curve of positive values on increasing energies and two
  anchors \<open>(E1, v1)\<close>, \<open>(E2, v2)\<close> with \<open>E1 \<noteq> E2\<close> inside the energy range and with
  positive \<open>v1\<close> and \<open>v2\<close>, \<open>norm_2points\<close> returns
  \<open>alpha = ln ((v2 * f E1) / (v1 * f E2)) / (E2 - E1)\<close> and
  \<open>A = v2 / f E2 * exp (- alpha * E2)\<close>, \<open>f\<close> the log-linear interpolation of the curve,
  and the log-linear interpolation of the normalised curve is \<open>v1\<close> at \<open>E1\<close> and \<open>v2\<close>
  at \<open>E2\<close>.
\<close>

theorem norm_2points_anchors:
  assumes pos: "list_all is_positive (col1 nld)"
    and srt: "sorted_wrt (<) (col0 nld)"
    and anchors: "pnorm_nldE1 pn = Some (E1, v1)" "pnorm_nldE2 pn = Some (E2, v2)"
    and ne: "E1 \<noteq> E2"
    and range: "col0 nld \<noteq> []" "hd (col0 nld) \<le> E1" "E1 \<le> last (col0 nld)"
       "hd (col0 nld) \<le> E2" "E2 \<le> last (col0 nld)"
    and v: "0 < v1" "0 < v2"
  shows "\<exists>f1 f2 alpha A nld_norm.
       log_interp1d (col0 nld) (col1 nld) E1 = Inr (Fin f1)
     \<and> log_interp1d (col0 nld) (col1 nld) E2 = Inr (Fin f2)
     \<and> alpha = ln ((v2 * f1) / (v1 * f2)) / (E2 - E1)
     \<and> A = v2 / f2 * exp (- alpha * E2)
     \<and> norm_2points nld pn = Inr (nld_norm, Fin A, Fin alpha)
     \<and> log_interp1d (col0 nld) nld_norm E1 = Inr (Fin v1)
     \<and> log_interp1d (col0 nld) nld_norm E2 = Inr (Fin v2)"
proof -
  from rows_of_columns [OF length_cols pos] obtain rows where
    c0: "col0 nld = map fst rows" and c1: "col1 nld = map (\<lambda>p. Fin (snd p)) rows"
    and rpos: "\<forall>p \<in> set rows. 0 < snd p" by blast
  from range(1) c0 have rne: "rows \<noteq> []" by auto
  have rsrt: "sorted_wrt (<) (map fst rows)" using srt c0 by simp
  have hl: "hd (col0 nld) = fst (hd rows)" "last (col0 nld) = fst (last rows)"
    using rne by (simp_all add: c0 hd_map last_map)
  define f1 where "f1 = exp (rinterp (map (\<lambda>(e, r). (e, ln r)) rows) E1)"
  define f2 where "f2 = exp (rinterp (map (\<lambda>(e, r). (e, ln r)) rows) E2)"
  define alpha where "alpha = ln ((v2 * f1) / (v1 * f2)) / (E2 - E1)"
  define A where "A = v2 / f2 * exp (- alpha * E2)"
  define nld_norm where
    "nld_norm = map (\<lambda>p. Fin (snd p)) (map (\<lambda>(e, r). (e, r * A * exp (alpha * e))) rows)"
  have fpos: "0 < f1" "0 < f2" by (simp_all add: f1_def f2_def)
  have b1: "fst (hd rows) \<le> E1" "E1 \<le> fst (last rows)"
    and b2: "fst (hd rows) \<le> E2" "E2 \<le> fst (last rows)"
    using range hl by simp_all
  have i1: "log_interp1d (col0 nld) (col1 nld) E1 = Inr (Fin f1)"
    unfolding c0 c1 f1_def by (rule log_interp1d_rows [OF rsrt rne rpos b1])
  have i2: "log_interp1d (col0 nld) (col1 nld) E2 = Inr (Fin f2)"
    unfolding c0 c1 f2_def by (rule log_interp1d_rows [OF rsrt rne rpos b2])
  have alg: "f1 * A * exp (alpha * E1) = v1" "f2 * A * exp (alpha * E2) = v2" "0 < A"
    unfolding A_def alpha_def by (rule two_point_algebra [OF fpos v ne])+
  have Q: "0 < (v2 * f1) / (v1 * f2)" "v1 * f2 \<noteq> 0" using fpos v by simp_all
  have al: "fdiv (flog (fdiv (fmul (Fin v2) (Fin f1)) (fmul (Fin v1) (Fin f2)))) (Fin (E2 - E1))
          = Fin alpha"
    using Q ne by (simp add: alpha_def)
  have Aeq: "fmul (fdiv (Fin v2) (Fin f2)) (fexp (fmul (fneg (Fin alpha)) (Fin E2))) = Fin A"
    using fpos by (simp add: A_def)
  have nn: "map2 (\<lambda>v e. fmul (fmul v (Fin A)) (fexp (fmul (Fin alpha) (Fin e))))
              (col1 nld) (col0 nld) = nld_norm"
    unfolding c0 c1 nld_norm_def by (rule normalised_rows)
  have run: "norm_2points nld pn = Inr (nld_norm, Fin A, Fin alpha)"
    by (simp only: norm_2points_def anchors option.case prod.case i1 i2 sum.case Let_def al Aeq nn)
  have n1: "log_interp1d (col0 nld) nld_norm E1 = Inr (Fin v1)"
    using log_interp1d_normalised [OF rsrt rne rpos b1 alg(3), of alpha] alg(1)
    unfolding c0 nld_norm_def f1_def by simp
  have n2: "log_interp1d (col0 nld) nld_norm E2 = Inr (Fin v2)"
    using log_interp1d_normalised [OF rsrt rne rpos b2 alg(3), of alpha] alg(2)
    unfolding c0 nld_norm_def f2_def by simp
  from i1 i2 run n1 n2 alpha_def A_def show ?thesis by blast
qed

theorem norm_2points_anchors_witness:
  "\<exists>nld_norm A alpha.
     norm_2points (Cols2 [(1 / 10, Fin 10), (1, Fin 50), (2, Fin 300)])
       \<lparr>pnorm_nldE1 = Some (1 / 10, 10), pnorm_nldE2 = Some (2, 300), pnorm_E1_low = None,
        pnorm_E2_low = None, pnorm_E1_high = None, pnorm_E2_high = None,
        pnorm_bounds_diff_evo = None\<rparr> = Inr (nld_norm, Fin A, Fin alpha)
   \<and> log_interp1d [1 / 10, 1, 2] nld_norm (1 / 10) = Inr (Fin 10)
   \<and> log_interp1d [1 / 10, 1, 2] nld_norm 2 = Inr (Fin 300)"
proof -
  let ?nld = "Cols2 [(1 / 10, Fin 10), (1, Fin 50), (2, Fin 300)]"
  let ?pn = "\<lparr>pnorm_nldE1 = Some (1 / 10, 10), pnorm_nldE2 = Some (2, 300), pnorm_E1_low = None,
        pnorm_E2_low = None, pnorm_E1_high = None, pnorm_E2_high = None,
        pnorm_bounds_diff_evo = None\<rparr>"
  have h: "list_all is_positive (col1 ?nld)" "sorted_wrt (<) (col0 ?nld)"
    "pnorm_nldE1 ?pn = Some (1 / 10, 10)" "pnorm_nldE2 ?pn = Some (2, 300)"
    "(1 / 10 :: real) \<noteq> 2" "col0 ?nld \<noteq> []" "hd (col0 ?nld) \<le> 1 / 10"
    "1 / 10 \<le> last (col0 ?nld)" "hd (col0 ?nld) \<le> 2" "2 \<le> last (col0 ?nld)"
    "(0::real) < 10" "(0::real) < 300"
    by simp_all
  have c: "col0 ?nld = [1 / 10, 1, 2]" by simp
  from norm_2points_anchors [OF h] show ?thesis unfolding c by blast
qed

text \<open>
  The anchors must be positive. With \<open>v1 = v2 = -1\<close> on the curve \<open>[(0, 1), (1, 1)]\<close>
  the solve gives \<open>alpha = 0\<close>, \<open>A = -1\<close> and the curve \<open>[-1, -1]\<close>, whose
  log-interpolation at \<open>E1\<close> is \<open>nan\<close>; with \<open>v1 = -1\<close> and \<open>v2 = 1\<close> the logarithm
  in \<open>alpha\<close> is already \<open>nan\<close>.
\<close>

theorem norm_2points_anchors_counterexample:
  "norm_2points (Cols2 [(0, Fin 1), (1, Fin 1)])
       \<lparr>pnorm_nldE1 = Some (0, - 1), pnorm_nldE2 = Some (1, - 1), pnorm_E1_low = None,
        pnorm_E2_low = None, pnorm_E1_high = None, pnorm_E2_high = None,
        pnorm_bounds_diff_evo = None\<rparr> = Inr ([Fin (- 1), Fin (- 1)], Fin (- 1), Fin 0)
   \<and> log_interp1d [0, 1] [Fin (- 1), Fin (- 1)] 0 = Inr NonFin
   \<and> norm_2points (Cols2 [(0, Fin 1), (1, Fin 1)])
       \<lparr>pnorm_nldE1 = Some (0, - 1), pnorm_nldE2 = Some (1, 1), pnorm_E1_low = None,
        pnorm_E2_low = None, pnorm_E1_high = None, pnorm_E2_high = None,
        pnorm_bounds_diff_evo = None\<rparr> = Inr ([NonFin, NonFin], NonFin, NonFin)"
  by (simp add: norm_2points_def log_interp1d_def Let_def)

section \<open>Propagation with an uncertainty column of zeros\<close>

lemma sqrt_quarter: "sqrt (1 / 4) = 1 / 2"
  by (simp add: real_sqrt_divide)

lemma upt2: "[0..<2] = [0, 1]" by (simp add: upt_rec)

lemma fadd_zero_scale: "is_fin v \<Longrightarrow> fadd v (Fin 0) = v"
  by (cases v) simp_all

lemma norm_rvs_zero:
  assumes "list_all (\<lambda>(E, v, u). is_fin v \<and> u = Fin 0) rows"
  shows "norm_rvs (col1 (Cols3 rows)) (col2 (Cols3 rows)) z = Inr (col1 (Cols3 rows))"
proof -
  have v: "list_all valid_scale (col2 (Cols3 rows))"
    using assms by (auto simp: list_all_iff)
  have "map (\<lambda>(j, l, s). fadd l (fmul s (Fin (z j))))
          (zip [0..<length (col1 (Cols3 rows))] (zip (col1 (Cols3 rows)) (col2 (Cols3 rows))))
        = col1 (Cols3 rows)"
  proof (rule nth_equalityI)
    show "length (map (\<lambda>(j, l, s). fadd l (fmul s (Fin (z j))))
          (zip [0..<length (col1 (Cols3 rows))] (zip (col1 (Cols3 rows)) (col2 (Cols3 rows)))))
        = length (col1 (Cols3 rows))" by simp
  next
    fix i
    assume "i < length (map (\<lambda>(j, l, s). fadd l (fmul s (Fin (z j))))
          (zip [0..<length (col1 (Cols3 rows))] (zip (col1 (Cols3 rows)) (col2 (Cols3 rows)))))"
    then have i: "i < length rows" by simp
    then have "rows ! i \<in> set rows" by simp
    with assms have "is_fin (fst (snd (rows ! i)))" "snd (snd (rows ! i)) = Fin 0"
      by (auto simp: list_all_iff)
    with i show "map (\<lambda>(j, l, s). fadd l (fmul s (Fin (z j))))
          (zip [0..<length (col1 (Cols3 rows))] (zip (col1 (Cols3 rows)) (col2 (Cols3 rows)))) ! i
        = col1 (Cols3 rows) ! i"
      by (simp add: fadd_zero_scale)
  qed
  with v show ?thesis by (simp add: norm_rvs_def)
qed

lemma normalize_cols2_values:
  "col1 (normalize_nld (Cols2 (zip (col0 (Cols3 rows)) (col1 (Cols3 rows)))) a al)
   = map (\<lambda>(E, v, u). normalize_value a al E v) rows"
  by (induction rows) auto

lemma sample_curve_zero:
  assumes "list_all (\<lambda>(E, v, u). is_fin v \<and> u = Fin 0) rows"
    and "i < length randlist" "randlist ! i < length As" "randlist ! i < length alphas"
    and "map_of samples ''alpha'' = Some alphas"
  shows "sample_curve r (Cols3 rows) samples As randlist i
       = Inr (map (\<lambda>(E, v, u). normalize_value (As ! (randlist ! i)) (alphas ! (randlist ! i)) E v) rows)"
  using assms(2-5) norm_rvs_zero [OF assms(1)] normalize_cols2_values [of rows]
  unfolding sample_curve_def by (simp add: Let_def)

lemma loop_samples_map:
  "\<forall>i \<in> set js. body i = Inr (f i) \<Longrightarrow> loop_samples body js = Inr (map f js)"
  by (induction js) simp_all

lemma np_median_replicate: "0 < k \<Longrightarrow> np_median (replicate k (Fin y)) = Fin y"
proof -
  assume k: "0 < k"
  have s: "sort (map the_fin (replicate k (Fin y))) = replicate k y"
    by (simp add: sorted_sort_id sorted_replicate)
  have "k div 2 < k" "k div 2 - 1 < k" using k by simp_all
  with k show ?thesis
    unfolding np_median_def s by (simp add: list_all_iff Let_def)
qed

lemma np_std_replicate: "0 < k \<Longrightarrow> np_std (replicate k (Fin y)) = Fin 0"
proof -
  assume k: "0 < k"
  have "sum_list (replicate k y) / real k = y" using k by (simp add: sum_list_replicate)
  then show ?thesis using k
    by (simp add: np_std_def list_all_iff Let_def sum_list_replicate)
qed

text \<open>
  C9, as the program has it. For a curve of three columns whose values are numbers and
  whose uncertainties are all zero, and for a sample set that is not empty, holds as many
  values of \<open>A\<close> and of \<open>alpha\<close> as of its first parameter, and whose samples all
  transform the curve to the same values (\<open>value * A * exp(alpha * Ex)\<close> is the same for
  every sample in every bin, as it is when all samples carry the same \<open>(A, alpha)\<close>), the
  propagator returns, for every bin, that transformed value as the median and zero as the
  standard deviation, whatever the shuffle and the normal draws are.
\<close>

theorem scanning_std_zero:
  assumes zero: "zero_uncertainty nld" and nld: "nld = Cols3 rows"
    and samples: "samples = (key, value) # others"
      "map_of samples ''A'' = Some As" "map_of samples ''alpha'' = Some alphas"
    and len: "length As = length value" "length alphas = length value" "0 < length value"
    and shuffle: "length (rng_shuffle r (length value)) = length value"
      "list_all (\<lambda>k. k < length value) (rng_shuffle r (length value))"
    and same: "list_all (\<lambda>k. list_all (\<lambda>(E, v, u).
         normalize_value (As ! k) (alphas ! k) E v = normalize_value a al E v) rows)
       [0..<length value]"
  shows "normalize_scanning_samples r nld samples A_norm alpha_norm
       = Inr (Cols3 (map (\<lambda>(E, v, u). (E, normalize_value a al E v, Fin 0)) rows))"
proof -
  let ?N = "length value"
  let ?randlist = "rng_shuffle r ?N"
  let ?n = "min 100 (length As)"
  let ?row = "map (\<lambda>(E, v, u). normalize_value a al E v) rows"
  have z: "list_all (\<lambda>(E, v, u). is_fin v \<and> u = Fin 0) rows" using zero nld by simp
  have n: "0 < ?n" using len by simp
  have body: "sample_curve r (Cols3 rows) samples As ?randlist i = Inr ?row" if "i \<in> set [0..<?n]" for i
  proof -
    from that len shuffle(1) have i: "i < length ?randlist" by simp
    then have "?randlist ! i \<in> set ?randlist" by simp
    with shuffle(2) have k: "?randlist ! i < ?N" by (simp add: list_all_iff)
    then have kk: "?randlist ! i < length As" "?randlist ! i < length alphas" using len by simp_all
    from k same have "map (\<lambda>(E, v, u).
          normalize_value (As ! (?randlist ! i)) (alphas ! (?randlist ! i)) E v) rows = ?row"
      by (intro map_cong) (auto simp: list_all_iff)
    with sample_curve_zero [OF z i kk samples(3), of r] show ?thesis by simp
  qed
  then have loop: "loop_samples (sample_curve r (Cols3 rows) samples As ?randlist) [0..<?n]
      = Inr (map (\<lambda>i. ?row) [0..<?n])"
    by (intro loop_samples_map) simp
  have rep: "map (\<lambda>i. ?row) [0..<?n] = replicate ?n ?row"
    by (simp add: map_replicate_const)
  have bins: "map (\<lambda>j. map (\<lambda>row. row ! j) (replicate ?n ?row)) [0..<length rows]
      = map (\<lambda>v. replicate ?n v) ?row"
    by (rule nth_equalityI) simp_all
  have fin: "\<exists>y. normalize_value a al (fst p) (fst (snd p)) = Fin y" if "p \<in> set rows" for p
  proof -
    from that z have "is_fin (fst (snd p))" by (auto simp: list_all_iff)
    then show ?thesis by (cases "fst (snd p)") (simp_all add: normalize_value_def)
  qed
  have out: "map2 (\<lambda>E bin. (E, np_median bin, np_std bin)) (col0 (Cols3 rows))
        (map (\<lambda>v. replicate ?n v) ?row)
      = map (\<lambda>(E, v, u). (E, normalize_value a al E v, Fin 0)) rows"
  proof (rule nth_equalityI)
    show "length (map2 (\<lambda>E bin. (E, np_median bin, np_std bin)) (col0 (Cols3 rows))
        (map (\<lambda>v. replicate ?n v) ?row))
      = length (map (\<lambda>(E, v, u). (E, normalize_value a al E v, Fin 0)) rows)" by simp
  next
    fix j
    assume "j < length (map2 (\<lambda>E bin. (E, np_median bin, np_std bin)) (col0 (Cols3 rows))
        (map (\<lambda>v. replicate ?n v) ?row))"
    then have j: "j < length rows" by simp
    then obtain y where y: "normalize_value a al (fst (rows ! j)) (fst (snd (rows ! j))) = Fin y"
      using fin [of "rows ! j"] by auto
    from j y n show "map2 (\<lambda>E bin. (E, np_median bin, np_std bin)) (col0 (Cols3 rows))
        (map (\<lambda>v. replicate ?n v) ?row) ! j
      = map (\<lambda>(E, v, u). (E, normalize_value a al E v, Fin 0)) rows ! j"
      by (simp add: case_prod_unfold np_median_replicate np_std_replicate)
  qed
  have ms: "map_of ((key, value) # others) ''A'' = Some As"
    using samples(1,2) by simp
  show ?thesis
    unfolding normalize_scanning_samples_def nld samples(1)
    by (simp only: list.case prod.case Let_def ndarray.case ms option.case
          loop [unfolded samples(1)] sum.case rep bins out)
qed

theorem scanning_std_zero_witness:
  "normalize_scanning_samples \<lparr>rng_shuffle = (\<lambda>N. rev [0..<N]), rng_normal = (\<lambda>i j. 1)\<rparr>
     (Cols3 [(1, Fin 1, Fin 0), (2, Fin 3, Fin 0)]) [(''A'', [2, 2]), (''alpha'', [0, 0])] 1 0
   = Inr (Cols3 [(1, Fin 2, Fin 0), (2, Fin 6, Fin 0)])
   \<and> normalize_scanning_samples \<lparr>rng_shuffle = (\<lambda>N. rev [0..<N]), rng_normal = (\<lambda>i j. 1)\<rparr>
     (Cols3 [(0, Fin 3, Fin 0)]) [(''A'', [1, 1]), (''alpha'', [0, 5])] 1 0
   = Inr (Cols3 [(0, Fin 3, Fin 0)])"
proof -
  let ?r = "\<lparr>rng_shuffle = (\<lambda>N. rev [0..<N]), rng_normal = (\<lambda>i j. 1)\<rparr>"
  have shuffle: "length (rng_shuffle ?r (length [2, 2 :: real])) = length [2, 2 :: real]"
    "list_all (\<lambda>k. k < length [2, 2 :: real]) (rng_shuffle ?r (length [2, 2 :: real]))"
    "length (rng_shuffle ?r (length [1, 1 :: real])) = length [1, 1 :: real]"
    "list_all (\<lambda>k. k < length [1, 1 :: real]) (rng_shuffle ?r (length [1, 1 :: real]))"
    by (simp_all add: upt2)
  have split: "[(''A'', [2, 2 :: real]), (''alpha'', [0, 0])] = (''A'', [2, 2]) # [(''alpha'', [0, 0])]"
    "[(''A'', [1, 1 :: real]), (''alpha'', [0, 5])] = (''A'', [1, 1]) # [(''alpha'', [0, 5])]"
    by simp_all
  have one: "normalize_scanning_samples ?r (Cols3 [(1, Fin 1, Fin 0), (2, Fin 3, Fin 0)])
       [(''A'', [2, 2]), (''alpha'', [0, 0])] 1 0
     = Inr (Cols3 (map (\<lambda>(E, v, u). (E, normalize_value 2 0 E v, Fin 0))
              [(1, Fin 1, Fin 0), (2, Fin 3, Fin 0)]))"
    by (rule scanning_std_zero [where As = "[2, 2]" and alphas = "[0, 0]",
          OF _ refl split(1) _ _ _ _ _ shuffle(1,2)])
       (simp_all add: upt2)
  have two: "normalize_scanning_samples ?r (Cols3 [(0, Fin 3, Fin 0)])
       [(''A'', [1, 1]), (''alpha'', [0, 5])] 1 0
     = Inr (Cols3 (map (\<lambda>(E, v, u). (E, normalize_value 1 0 E v, Fin 0)) [(0, Fin 3, Fin 0)]))"
    by (rule scanning_std_zero [where As = "[1, 1]" and alphas = "[0, 5]",
          OF _ refl split(2) _ _ _ _ _ shuffle(3,4)])
       (simp_all add: upt2 normalize_value_def)
  from one two show ?thesis by (simp add: normalize_value_def)
qed

text \<open>
  The condition on the samples cannot be dropped: a zero uncertainty column alone does not
  make the standard deviation zero for any sample set. The value \<open>1\<close> with the samples
  \<open>A = 1, 2\<close> and \<open>alpha = 0, 0\<close> gives the curves \<open>1\<close> and \<open>2\<close>, the median \<open>3/2\<close>
  and the standard deviation \<open>1/2\<close>.
\<close>

theorem scanning_std_zero_counterexample:
  "normalize_scanning_samples \<lparr>rng_shuffle = (\<lambda>N. [0..<N]), rng_normal = (\<lambda>i j. 1)\<rparr>
     (Cols3 [(1, Fin 1, Fin 0)]) [(''A'', [1, 2]), (''alpha'', [0, 0])] 1 0
   = Inr (Cols3 [(1, Fin (3 / 2), Fin (1 / 2))])"
  by (simp add: normalize_scanning_samples_def sample_curve_def norm_rvs_def np_median_def np_std_def
        normalize_value_def upt2 Let_def sqrt_quarter)

section \<open>The windows of the automatic strategy\<close>

lemma argmin_from_least:
  assumes "drop i ys = xs" "best < i" "i \<le> length ys" "ys ! best = least"
    "\<forall>k<i. least \<le> ys ! k" "\<forall>k<best. least < ys ! k"
  shows "argmin_from best least i xs < length ys
       \<and> (\<forall>k<length ys. ys ! argmin_from best least i xs \<le> ys ! k)
       \<and> (\<forall>k<argmin_from best least i xs. ys ! argmin_from best least i xs < ys ! k)"
  using assms
proof (induction xs arbitrary: best least i)
  case Nil
  then have "length ys \<le> i" by simp
  with Nil show ?case by simp
next
  case (Cons x xs)
  from Cons.prems(1) have i: "i < length ys" by (metis drop_eq_Nil leI list.distinct(1))
  from Cons.prems(1) have x: "ys ! i = x"
    by (metis i nth_via_drop)
  from Cons.prems(1) have d: "drop (Suc i) ys = xs"
    by (metis drop_Suc list.sel(3) tl_drop)
  show ?case
  proof (cases "x < least")
    case True
    have a: "\<forall>k<Suc i. x \<le> ys ! k"
      using Cons.prems(5) True x by (auto simp: less_Suc_eq intro: order_trans less_imp_le)
    have b: "\<forall>k<i. x < ys ! k"
      using Cons.prems(5) True by (auto intro: less_le_trans)
    from Cons.IH [OF d _ _ x a b] i True show ?thesis by simp
  next
    case False
    have a: "\<forall>k<Suc i. least \<le> ys ! k"
      using Cons.prems(5) False x by (auto simp: less_Suc_eq)
    from Cons.IH [OF d _ _ Cons.prems(4) a Cons.prems(6)] Cons.prems(2) i False
    show ?thesis by simp
  qed
qed

lemma np_argmin_least:
  assumes "ys \<noteq> []"
  shows "\<exists>r. np_argmin ys = Inr r \<and> r < length ys \<and> (\<forall>k<length ys. ys ! r \<le> ys ! k)
           \<and> (\<forall>k<r. ys ! r < ys ! k)"
proof -
  from assms obtain y rest where ys: "ys = y # rest" by (cases ys) auto
  have "argmin_from 0 y 1 rest < length ys
       \<and> (\<forall>k<length ys. ys ! argmin_from 0 y 1 rest \<le> ys ! k)
       \<and> (\<forall>k<argmin_from 0 y 1 rest. ys ! argmin_from 0 y 1 rest < ys ! k)"
    by (rule argmin_from_least) (simp_all add: ys)
  then show ?thesis by (simp add: np_argmin_def ys)
qed

lemma nearest_index_nearest:
  assumes "energies \<noteq> []"
  shows "\<exists>r. nearest_index energies E = Inr r \<and> r < length energies
           \<and> (\<forall>k<length energies. \<bar>energies ! r - E\<bar> \<le> \<bar>energies ! k - E\<bar>)
           \<and> (\<forall>k<r. \<bar>energies ! r - E\<bar> < \<bar>energies ! k - E\<bar>)"
proof -
  from assms have "map (\<lambda>e. \<bar>e - E\<bar>) energies \<noteq> []" by simp
  from np_argmin_least [OF this] obtain r where
    r: "np_argmin (map (\<lambda>e. \<bar>e - E\<bar>) energies) = Inr r" "r < length energies"
      "\<forall>k<length energies. map (\<lambda>e. \<bar>e - E\<bar>) energies ! r \<le> map (\<lambda>e. \<bar>e - E\<bar>) energies ! k"
      "\<forall>k<r. map (\<lambda>e. \<bar>e - E\<bar>) energies ! r < map (\<lambda>e. \<bar>e - E\<bar>) energies ! k"
    by auto
  from r(2,3) have "\<forall>k<length energies. \<bar>energies ! r - E\<bar> \<le> \<bar>energies ! k - E\<bar>" by simp
  moreover from r(2,4) have "\<forall>k<r. \<bar>energies ! r - E\<bar> < \<bar>energies ! k - E\<bar>" by simp
  ultimately show ?thesis using r(1,2) by (simp add: nearest_index_def)
qed

lemma py_slice_nth: "j \<le> length xs \<Longrightarrow> py_slice i j xs = map (\<lambda>k. xs ! k) [i..<j]"
  by (rule nth_equalityI) (simp_all add: py_slice_def)

lemma col0_slice: "col0 (slice_rows i j nld) = py_slice i j (col0 nld)"
  by (cases nld) (simp_all add: py_slice_def drop_map take_map)

lemma col1_slice: "col1 (slice_rows i j nld) = py_slice i j (col1 nld)"
  by (cases nld) (simp_all add: py_slice_def drop_map take_map)

lemma col2_slice: "col2 (slice_rows i j nld) = py_slice i j (col2 nld)"
  by (cases nld) (simp_all add: py_slice_def drop_map take_map)

lemma slice_rows_select:
  "j \<le> length (col0 nld) \<Longrightarrow> slice_rows i j nld = select_rows [i..<j] nld"
  by (cases nld) (simp_all add: py_slice_nth)

lemma nearest_index_is_nearest:
  assumes "energies \<noteq> []"
  shows "\<exists>r. nearest_index energies E = Inr r \<and> is_nearest energies E r"
proof -
  from nearest_index_nearest [OF assms, of E] obtain r where
    r: "nearest_index energies E = Inr r" "r < length energies"
      "\<forall>k<length energies. \<bar>energies ! r - E\<bar> \<le> \<bar>energies ! k - E\<bar>" by blast
  have "list_all (\<lambda>e. \<bar>energies ! r - E\<bar> \<le> \<bar>e - E\<bar>) energies"
    using r(3) by (auto simp: list_all_iff in_set_conv_nth)
  with r(1,2) show ?thesis by (auto simp: is_nearest_def)
qed

text \<open>
  C10. With \<open>idE1\<close> and \<open>idE2\<close> the indices of the energies nearest to the bounds of
  the low window (and \<open>idE1'\<close>, \<open>idE2'\<close> those of the high window), \<open>data_low\<close> is the
  rows \<open>idE1 \<le> k < idE2\<close> of the curve and \<open>data_high\<close> the rows \<open>idE1' \<le> k < idE2'\<close>:
  the row at the upper index is left out, and a window whose two indices coincide is empty.
  The smoothed levels, and the energies stored with them, are cut at the indices of the low
  window.
\<close>

theorem find_norm_windows_half_open:
  assumes keys: "pnorm_E1_low (self_pnorm self) = Some E1_low"
      "pnorm_E2_low (self_pnorm self) = Some E2_low"
      "pnorm_E1_high (self_pnorm self) = Some E1_high"
      "pnorm_E2_high (self_pnorm self) = Some E2_high"
    and curve: "self_nld self = nld" "col0 nld \<noteq> []"
    and levels: "get_discretes ev self (col0 nld) (1 / 10) = Inr levels"
      "length levels = length (col0 nld)"
  shows "\<exists>idE1 idE2 idE1' idE2'.
       is_nearest (col0 nld) E1_low idE1 \<and> is_nearest (col0 nld) E2_low idE2
     \<and> is_nearest (col0 nld) E1_high idE1' \<and> is_nearest (col0 nld) E2_high idE2'
     \<and> nearest_index (col0 nld) E1_low = Inr idE1 \<and> nearest_index (col0 nld) E2_low = Inr idE2
     \<and> nearest_index (col0 nld) E1_high = Inr idE1' \<and> nearest_index (col0 nld) E2_high = Inr idE2'
     \<and> find_norm_windows ev self
         = Inr (select_rows [idE1..<idE2] nld,
                map (\<lambda>k. levels ! k) [idE1..<idE2],
                Cols2 (zip (map (\<lambda>k. col0 nld ! k) [idE1..<idE2]) (map (\<lambda>k. levels ! k) [idE1..<idE2])),
                select_rows [idE1'..<idE2'] nld)
     \<and> idE2 \<notin> set [idE1..<idE2] \<and> idE2' \<notin> set [idE1'..<idE2']
     \<and> (idE1 = idE2 \<longrightarrow> col0 (select_rows [idE1..<idE2] nld) = [])
     \<and> (idE1' = idE2' \<longrightarrow> col0 (select_rows [idE1'..<idE2'] nld) = [])"
proof -
  from nearest_index_is_nearest [OF curve(2)] obtain idE1 idE2 idE1' idE2' where
    n: "nearest_index (col0 nld) E1_low = Inr idE1" "is_nearest (col0 nld) E1_low idE1"
       "nearest_index (col0 nld) E2_low = Inr idE2" "is_nearest (col0 nld) E2_low idE2"
       "nearest_index (col0 nld) E1_high = Inr idE1'" "is_nearest (col0 nld) E1_high idE1'"
       "nearest_index (col0 nld) E2_high = Inr idE2'" "is_nearest (col0 nld) E2_high idE2'"
    by metis
  from n(4,8) have le: "idE2 \<le> length (col0 nld)" "idE2' \<le> length (col0 nld)"
    by (simp_all add: is_nearest_def)
  have stack: "column_stack (map (\<lambda>k. col0 nld ! k) [idE1..<idE2]) (map (\<lambda>k. levels ! k) [idE1..<idE2])
      = Inr (Cols2 (zip (map (\<lambda>k. col0 nld ! k) [idE1..<idE2]) (map (\<lambda>k. levels ! k) [idE1..<idE2])))"
    by (simp add: column_stack_def)
  have run: "find_norm_windows ev self
         = Inr (select_rows [idE1..<idE2] nld,
                map (\<lambda>k. levels ! k) [idE1..<idE2],
                Cols2 (zip (map (\<lambda>k. col0 nld ! k) [idE1..<idE2]) (map (\<lambda>k. levels ! k) [idE1..<idE2])),
                select_rows [idE1'..<idE2'] nld)"
    unfolding find_norm_windows_def curve(1) Let_def keys
    using le levels(2)
    by (simp add: and_then_def required_def n(1,3,5,7) levels(1) stack
          slice_rows_select py_slice_nth)
  have e: "col0 (select_rows [k..<k] nld) = []" for k by (cases nld) simp_all
  from n run e show ?thesis by auto
qed

lemma upt_small: "[0..<2] = [0, 1]" "[2..<3] = [2]"
  by (simp_all add: upt_rec)

lemma demo_indices:
  "nearest_index (col0 demo_nld) (1 / 10) = Inr 0" "nearest_index (col0 demo_nld) (19 / 10) = Inr 2"
  "nearest_index (col0 demo_nld) (11 / 5) = Inr 2" "nearest_index (col0 demo_nld) 3 = Inr 3"
  by (simp_all add: demo_nld_def nearest_index_def np_argmin_def)

theorem find_norm_windows_half_open_witness:
  "find_norm_windows demo_env (demo_self ''find_norm'' ''CT'')
     = Inr (Cols2 [(0, Fin 1), (1, Fin 2)], [Fin 0, Fin 1], Cols2 [(0, Fin 0), (1, Fin 1)],
            Cols2 [(2, Fin 3)])"
proof -
  have h: "pnorm_E1_low (self_pnorm (demo_self ''find_norm'' ''CT'')) = Some (1 / 10)"
    "pnorm_E2_low (self_pnorm (demo_self ''find_norm'' ''CT'')) = Some (19 / 10)"
    "pnorm_E1_high (self_pnorm (demo_self ''find_norm'' ''CT'')) = Some (11 / 5)"
    "pnorm_E2_high (self_pnorm (demo_self ''find_norm'' ''CT'')) = Some 3"
    "self_nld (demo_self ''find_norm'' ''CT'') = demo_nld" "col0 demo_nld \<noteq> []"
    "get_discretes demo_env (demo_self ''find_norm'' ''CT'') (col0 demo_nld) (1 / 10)
       = Inr (map Fin (col0 demo_nld))"
    "length (map Fin (col0 demo_nld)) = length (col0 demo_nld)"
    by (simp_all add: demo_self_def demo_pnorm_def demo_nld_def demo_env_def get_discretes_def)
  from find_norm_windows_half_open [OF h] show ?thesis
    apply (simp add: demo_indices upt_small)
    apply (simp add: demo_nld_def)
    done
qed

section \<open>The check of the units\<close>

text \<open>
  C6. A curve with an energy above 1000 ends the construction with the RuntimeError of the
  unit check, whatever the method, the model, the parameters and the services are: nothing
  is dispatched, fitted or looked up. A curve whose energies are all at most 1000 passes the
  check, and the construction is the dispatch of the method on the object as stored.
\<close>

theorem unit_check_first:
  "((\<exists>e \<in> set (col0 nld). 1000 < e) \<longrightarrow>
       NormNLD_init ev nld method pn nldModel pe ps D0 fname = Inl RuntimeError)
   \<and> ((\<forall>e \<in> set (col0 nld). e \<le> 1000) \<longrightarrow>
       NormNLD_init ev nld method pn nldModel pe ps D0 fname
       = run_method ev
           \<lparr>self_nld = nld, self_method = method, self_pnorm = pn, self_nldModel = nldModel,
            self_pext = pe, self_pspin = ps, self_D0 = D0, self_fname_discretes = fname,
            self_nld_norm = None, self_discretes = None, self_A_norm = None,
            self_alpha_norm = None, self_T = None, self_multinest_samples = None,
            self_nld_ext = None, self_chi2_args = None\<rparr>)"
proof (intro conjI impI)
  assume "\<exists>e \<in> set (col0 nld). 1000 < e"
  then have "unit_check nld = Inl RuntimeError" by (simp add: unit_check_def list_ex_iff)
  then show "NormNLD_init ev nld method pn nldModel pe ps D0 fname = Inl RuntimeError"
    by (simp add: NormNLD_init_def and_then_def)
next
  assume "\<forall>e \<in> set (col0 nld). e \<le> 1000"
  then have "unit_check nld = Inr ()" by (auto simp: unit_check_def list_ex_iff not_less)
  then show "NormNLD_init ev nld method pn nldModel pe ps D0 fname
       = run_method ev
           \<lparr>self_nld = nld, self_method = method, self_pnorm = pn, self_nldModel = nldModel,
            self_pext = pe, self_pspin = ps, self_D0 = D0, self_fname_discretes = fname,
            self_nld_norm = None, self_discretes = None, self_A_norm = None,
            self_alpha_norm = None, self_T = None, self_multinest_samples = None,
            self_nld_ext = None, self_chi2_args = None\<rparr>"
    by (simp add: NormNLD_init_def and_then_def)
qed

theorem unit_check_first_witness:
  "NormNLD_init demo_env (Cols2 [(1, Fin 1), (1001, Fin 2)]) ''find_norm'' demo_pnorm ''CT''
      demo_pext demo_pspin 1 ''discrete_levels.txt'' = Inl RuntimeError
   \<and> NormNLD_init demo_env (Cols2 [(1, Fin 1), (1001, Fin 2)]) ''no such method'' demo_pnorm ''CT''
      demo_pext demo_pspin 1 ''discrete_levels.txt'' = Inl RuntimeError
   \<and> NormNLD_init demo_env (Cols2 [(1, Fin 1), (1000, Fin 2)]) ''no such method'' demo_pnorm ''CT''
      demo_pext demo_pspin 1 ''discrete_levels.txt'' = Inl TypeError"
  using unit_check_first [of "Cols2 [(1, Fin 1), (1001, Fin 2)]" demo_env "''find_norm''" demo_pnorm
      "''CT''" demo_pext demo_pspin 1 "''discrete_levels.txt''"]
    unit_check_first [of "Cols2 [(1, Fin 1), (1001, Fin 2)]" demo_env "''no such method''" demo_pnorm
      "''CT''" demo_pext demo_pspin 1 "''discrete_levels.txt''"]
    unit_check_first [of "Cols2 [(1, Fin 1), (1000, Fin 2)]" demo_env "''no such method''" demo_pnorm
      "''CT''" demo_pext demo_pspin 1 "''discrete_levels.txt''"]
  by (simp add: run_method_def)

section \<open>An unsupported model\<close>

lemma demo_windows:
  "find_norm_windows demo_env (demo_self method nldModel)
     = Inr (Cols2 [(0, Fin 1), (1, Fin 2)], [Fin 0, Fin 1], Cols2 [(0, Fin 0), (1, Fin 1)],
            Cols2 [(2, Fin 3)])"
  unfolding find_norm_windows_def
  by (simp add: demo_self_def demo_pnorm_def demo_env_def get_discretes_def and_then_def
        required_def column_stack_def py_slice_def demo_nld_def
        demo_indices [unfolded demo_nld_def, simplified])


text \<open>
  C8, at the model name \<open>"BSFG"\<close>. \<open>extrapolate\<close> raises its TypeError at the dispatch.
  \<open>find_norm\<close> does not: its dispatch only prints, and the run ends one statement later
  with the UnboundLocalError of the local \<open>nldModel\<close>, which is also how the
  construction of the engine ends. With \<open>"CT"\<close> the same run returns.
\<close>

theorem find_norm_unsupported_model:
  "find_norm demo_env (demo_self ''find_norm'' ''BSFG'') = Inl UnboundLocalError
   \<and> NormNLD_init demo_env demo_nld ''find_norm'' demo_pnorm ''BSFG'' demo_pext demo_pspin 1
        ''discrete_levels.txt'' = Inl UnboundLocalError
   \<and> extrapolate ''BSFG'' demo_pext = Inl TypeError
   \<and> (\<exists>result. find_norm demo_env (demo_self ''find_norm'' ''CT'') = Inr result)"
proof -
  have f: "find_norm demo_env (demo_self ''find_norm'' ''BSFG'') = Inl UnboundLocalError"
    unfolding find_norm_def demo_windows by (simp add: and_then_def demo_self_def)
  have u: "unit_check demo_nld = Inr ()" by (simp add: unit_check_def demo_nld_def)
  have i: "NormNLD_init demo_env demo_nld ''find_norm'' demo_pnorm ''BSFG'' demo_pext demo_pspin 1
        ''discrete_levels.txt'' = Inl UnboundLocalError"
    unfolding NormNLD_init_def u
    using f by (simp add: and_then_def run_method_def demo_self_def)
  have e: "extrapolate ''BSFG'' demo_pext = Inl TypeError"
    by (simp add: extrapolate_def demo_pext_def and_then_def required_def)
  have c: "\<exists>result. find_norm demo_env (demo_self ''find_norm'' ''CT'') = Inr result"
    unfolding find_norm_def demo_windows
    by (simp add: and_then_def demo_self_def demo_pnorm_def required_def demo_env_def lookup_def
          demo_pspin_def nldSn_from_D0_def summe_of_def extrapolate_def demo_pext_def
          call_model_def Let_def split: prod.splits)
  from f i e c show ?thesis by simp
qed

end
